theory Spec2Isabelle
  imports Main "HOL-Library.Word"
begin

unbundle bit_operations_syntax

section \<open>Machine types, error codes and the block device\<close>

text \<open>
  The driver in \<^verbatim>\<open>src/drivers/fat32.c\<close> runs on a 32-bit little-endian
  microcontroller: \<^verbatim>\<open>uint8_t\<close>, \<^verbatim>\<open>uint16_t\<close> and \<^verbatim>\<open>uint32_t\<close> are words
  of that width and \<^verbatim>\<open>size_t\<close> is 32 bits wide too.  Arithmetic on them wraps.
\<close>

type_synonym u8 = "8 word"
type_synonym u16 = "16 word"
type_synonym u32 = "32 word"

text \<open>
  \<^verbatim>\<open>fat32_error_t\<close> of \<^verbatim>\<open>fat32.h\<close>.  The first five values coincide with
  \<^verbatim>\<open>sd_error_t\<close> of \<^verbatim>\<open>sdcard.h\<close>, which is how the driver passes transport
  errors through unchanged.
\<close>

datatype fat32_error_t =
    FAT32_OK
  | FAT32_ERROR_NO_CARD
  | FAT32_ERROR_INIT_FAILED
  | FAT32_ERROR_READ_FAILED
  | FAT32_ERROR_WRITE_FAILED
  | FAT32_ERROR_INVALID_FORMAT
  | FAT32_ERROR_NOT_MOUNTED
  | FAT32_ERROR_FILE_NOT_FOUND
  | FAT32_ERROR_INVALID_PATH
  | FAT32_ERROR_NOT_A_DIRECTORY
  | FAT32_ERROR_NOT_A_FILE
  | FAT32_ERROR_DIR_NOT_EMPTY
  | FAT32_ERROR_DIR_NOT_FOUND
  | FAT32_ERROR_DISK_FULL
  | FAT32_ERROR_FILE_EXISTS
  | FAT32_ERROR_INVALID_POSITION
  | FAT32_ERROR_INVALID_PARAMETER
  | FAT32_ERROR_INVALID_SECTOR_SIZE
  | FAT32_ERROR_INVALID_CLUSTER_SIZE
  | FAT32_ERROR_INVALID_FATS
  | FAT32_ERROR_INVALID_RESERVED_SECTORS

text \<open>
  A sector is an array of \<^verbatim>\<open>FAT32_SECTOR_SIZE\<close> = 512 bytes; it is modelled as
  a function from the byte index, of which only the indices below 512 are ever
  read or written.  Multi-byte fields are little-endian, as the packed structs of
  \<^verbatim>\<open>fat32.h\<close> overlay them on the target.
\<close>

type_synonym sector = "nat \<Rightarrow> u8"

definition le16 :: "sector \<Rightarrow> nat \<Rightarrow> u16" where
  "le16 b off = ucast (b off) OR push_bit 8 (ucast (b (off + 1)))"

definition le32 :: "sector \<Rightarrow> nat \<Rightarrow> u32" where
  "le32 b off =
     ucast (b off) OR push_bit 8 (ucast (b (off + 1))) OR
     push_bit 16 (ucast (b (off + 2))) OR push_bit 24 (ucast (b (off + 3)))"

definition put_le32 :: "sector \<Rightarrow> nat \<Rightarrow> u32 \<Rightarrow> sector" where
  "put_le32 b off v =
     b(off := ucast v, off + 1 := ucast (drop_bit 8 v),
       off + 2 := ucast (drop_bit 16 v), off + 3 := ucast (drop_bit 24 v))"

text \<open>
  The block transport of \<^verbatim>\<open>sdcard.c\<close> is hardware access; the driver uses
  \<^verbatim>\<open>sd_card_present\<close>, \<^verbatim>\<open>sd_card_init\<close>, \<^verbatim>\<open>sd_read_block\<close> and
  \<^verbatim>\<open>sd_write_block\<close> only.  The card is modelled by its contents and by which
  blocks fail to transfer; a failed transfer leaves the card as it was.
\<close>

record sd_card =
  sd_present :: bool
  sd_init_result :: fat32_error_t
  sd_blocks :: "u32 \<Rightarrow> sector"
  sd_read_fails :: "u32 \<Rightarrow> bool"
  sd_write_fails :: "u32 \<Rightarrow> bool"

definition sd_read_block :: "sd_card \<Rightarrow> u32 \<Rightarrow> fat32_error_t + sector" where
  "sd_read_block c block =
     (if sd_read_fails c block then Inl FAT32_ERROR_READ_FAILED
      else Inr (sd_blocks c block))"

definition sd_write_block :: "sd_card \<Rightarrow> u32 \<Rightarrow> sector \<Rightarrow> fat32_error_t + sd_card" where
  "sd_write_block c block buf =
     (if sd_write_fails c block then Inl FAT32_ERROR_WRITE_FAILED
      else Inr (c\<lparr>sd_blocks := (sd_blocks c)(block := buf)\<rparr>))"

section \<open>Driver state\<close>

text \<open>
  The fields of \<^verbatim>\<open>fat32_boot_sector_t\<close> the driver reads, and their byte
  offsets in the packed struct: \<^verbatim>\<open>bytes_per_sector\<close> 11, \<^verbatim>\<open>sectors_per_cluster\<close>
  13, \<^verbatim>\<open>reserved_sectors\<close> 14, \<^verbatim>\<open>num_fats\<close> 16, \<^verbatim>\<open>fat_size_16\<close> 22,
  \<^verbatim>\<open>total_sectors_32\<close> 32, \<^verbatim>\<open>fat_size_32\<close> 36, \<^verbatim>\<open>root_cluster\<close> 44,
  \<^verbatim>\<open>fat32_info\<close> 48.
\<close>

record fat32_boot_sector_t =
  bytes_per_sector :: u16
  sectors_per_cluster :: u8
  reserved_sectors :: u16
  num_fats :: u8
  fat_size_16 :: u16
  total_sectors_32 :: u32
  fat_size_32 :: u32
  root_cluster :: u32
  fat32_info :: u16

definition parse_boot_sector :: "sector \<Rightarrow> fat32_boot_sector_t" where
  "parse_boot_sector b =
     \<lparr>bytes_per_sector = le16 b 11, sectors_per_cluster = b 13,
      reserved_sectors = le16 b 14, num_fats = b 16, fat_size_16 = le16 b 22,
      total_sectors_32 = le32 b 32, fat_size_32 = le32 b 36,
      root_cluster = le32 b 44, fat32_info = le16 b 48\<rparr>"

text \<open>
  \<^verbatim>\<open>fat32_fsinfo_t\<close> is exactly one sector (4 + 480 + 4 + 4 + 4 + 12 + 4 bytes)
  and is copied from and written to the card as raw bytes, so the cached copy is
  kept as a sector with one accessor per field.
\<close>

definition lead_sig :: "sector \<Rightarrow> u32" where "lead_sig f = le32 f 0"
definition struc_sig :: "sector \<Rightarrow> u32" where "struc_sig f = le32 f 484"
definition free_count :: "sector \<Rightarrow> u32" where "free_count f = le32 f 488"
definition next_free :: "sector \<Rightarrow> u32" where "next_free f = le32 f 492"
definition trail_sig :: "sector \<Rightarrow> u32" where "trail_sig f = le32 f 508"

definition set_free_count :: "sector \<Rightarrow> u32 \<Rightarrow> sector" where
  "set_free_count f v = put_le32 f 488 v"

definition set_next_free :: "sector \<Rightarrow> u32 \<Rightarrow> sector" where
  "set_next_free f v = put_le32 f 492 v"

text \<open>
  The file-scope variables of \<^verbatim>\<open>fat32.c\<close>, together with the card.  The
  scratch \<^verbatim>\<open>sector_buffer\<close> is filled anew by every function before it is used,
  so each function of the model holds it in a local value.
\<close>

record fat32_state =
  card :: sd_card
  fat32_mounted :: bool
  mount_status :: fat32_error_t
  boot_sector :: fat32_boot_sector_t
  fsinfo :: sector
  volume_start_block :: u32
  first_data_sector :: u32
  data_region_sectors :: u32
  cluster_count :: u32
  bytes_per_cluster :: u32
  current_dir_cluster :: u32

record fat32_file_t =
  is_open :: bool
  last_entry_read :: bool
  attributes :: u8
  start_cluster :: u32
  current_cluster :: u32
  file_size :: u32
  position :: u32
  dir_entry_sector :: u32
  dir_entry_offset :: u32

text \<open>\<^verbatim>\<open>memset(file, 0, sizeof(fat32_file_t))\<close>\<close>

definition zero_file :: fat32_file_t where
  "zero_file =
     \<lparr>is_open = False, last_entry_read = False, attributes = 0, start_cluster = 0,
      current_cluster = 0, file_size = 0, position = 0, dir_entry_sector = 0,
      dir_entry_offset = 0\<rparr>"

abbreviation (input) FAT32_SECTOR_SIZE :: u32 where "FAT32_SECTOR_SIZE \<equiv> 512"
abbreviation (input) FAT32_FAT_ENTRY_FREE :: u32 where "FAT32_FAT_ENTRY_FREE \<equiv> 0"
abbreviation (input) FAT32_FAT_ENTRY_EOC :: u32 where "FAT32_FAT_ENTRY_EOC \<equiv> 0x0FFFFFF8"

section \<open>Sector access and the FAT\<close>

definition read_sector :: "fat32_state \<Rightarrow> u32 \<Rightarrow> fat32_error_t + sector" where
  "read_sector st s = sd_read_block (card st) (volume_start_block st + s)"

definition write_sector :: "fat32_state \<Rightarrow> u32 \<Rightarrow> sector \<Rightarrow> fat32_error_t + fat32_state" where
  "write_sector st s buf =
     (case sd_write_block (card st) (volume_start_block st + s) buf of
        Inl e \<Rightarrow> Inl e
      | Inr c \<Rightarrow> Inr (st\<lparr>card := c\<rparr>))"

text \<open>
  The sector of the FAT, relative to the volume, and the byte offset in it that
  hold the entry of a cluster: \<^verbatim>\<open>fat_offset = cluster * 4\<close>,
  \<^verbatim>\<open>fat_sector = reserved_sectors + fat_offset / 512\<close>,
  \<^verbatim>\<open>entry_offset = fat_offset % 512\<close>.
\<close>

definition fat_sector :: "fat32_state \<Rightarrow> u32 \<Rightarrow> u32" where
  "fat_sector st cluster =
     ucast (reserved_sectors (boot_sector st)) + (cluster * 4) div FAT32_SECTOR_SIZE"

definition entry_offset :: "u32 \<Rightarrow> nat" where
  "entry_offset cluster = unat ((cluster * 4) mod FAT32_SECTOR_SIZE)"

definition read_cluster_fat_entry :: "fat32_state \<Rightarrow> u32 \<Rightarrow> fat32_error_t + u32" where
  "read_cluster_fat_entry st cluster =
     (if cluster < 2 then Inl FAT32_ERROR_INVALID_PARAMETER
      else case read_sector st (fat_sector st cluster) of
        Inl e \<Rightarrow> Inl e
      | Inr buf \<Rightarrow> Inr (le32 buf (entry_offset cluster) AND 0x0FFFFFFF))"

definition write_cluster_fat_entry ::
  "fat32_state \<Rightarrow> u32 \<Rightarrow> u32 \<Rightarrow> fat32_error_t + fat32_state" where
  "write_cluster_fat_entry st cluster v =
     (if cluster < 2 then Inl FAT32_ERROR_INVALID_PARAMETER
      else case read_sector st (fat_sector st cluster) of
        Inl e \<Rightarrow> Inl e
      | Inr buf \<Rightarrow>
          let off = entry_offset cluster;
              masked = le32 buf off AND 0xF0000000;
              buf' = put_le32 buf off (masked OR (v AND 0x0FFFFFFF))
          in write_sector st (fat_sector st cluster) buf')"

text \<open>\<^verbatim>\<open>cluster_to_sector\<close> and \<^verbatim>\<open>update_fsinfo\<close>.\<close>

definition cluster_to_sector :: "fat32_state \<Rightarrow> u32 \<Rightarrow> u32" where
  "cluster_to_sector st cluster =
     (cluster - 2) * ucast (sectors_per_cluster (boot_sector st)) + first_data_sector st"

definition update_fsinfo :: "fat32_state \<Rightarrow> fat32_error_t + fat32_state" where
  "update_fsinfo st = write_sector st (ucast (fat32_info (boot_sector st))) (fsinfo st)"

text \<open>
  The loop of \<^verbatim>\<open>release_cluster_chain\<close>, from the cluster it is about to
  visit, with the counters \<^verbatim>\<open>total_clusters\<close> and \<^verbatim>\<open>lowest_cluster\<close>.  It
  yields the error (or \<^verbatim>\<open>FAT32_OK\<close> when the loop ends), the state and the
  counters.  The loop follows whatever the FAT holds, so it is defined as a partial
  function: \<open>None\<close> stands for a walk that never ends.
\<close>

partial_function (option) release_loop ::
  "fat32_state \<Rightarrow> u32 \<Rightarrow> u32 \<Rightarrow> u32 \<Rightarrow> (fat32_error_t \<times> fat32_state \<times> u32 \<times> u32) option" where
  "release_loop st cluster total_clusters lowest_cluster =
     (if cluster < FAT32_FAT_ENTRY_EOC then
        (case read_cluster_fat_entry st cluster of
           Inl e \<Rightarrow> Some (e, st, total_clusters, lowest_cluster)
         | Inr next_cluster \<Rightarrow>
             (case write_cluster_fat_entry st cluster FAT32_FAT_ENTRY_FREE of
                Inl e \<Rightarrow> Some (e, st, total_clusters, lowest_cluster)
              | Inr st' \<Rightarrow>
                  release_loop st' next_cluster (total_clusters + 1)
                    (if cluster < lowest_cluster then cluster else lowest_cluster)))
      else Some (FAT32_OK, st, total_clusters, lowest_cluster))"

definition release_cluster_chain ::
  "fat32_state \<Rightarrow> u32 \<Rightarrow> (fat32_error_t \<times> fat32_state) option" where
  "release_cluster_chain st start =
     (if start < 2 then Some (FAT32_ERROR_INVALID_PARAMETER, st)
      else case release_loop st start 0 0xFFFFFFFF of
        None \<Rightarrow> None
      | Some (e, st1, total_clusters, lowest_cluster) \<Rightarrow>
          if e \<noteq> FAT32_OK then Some (e, st1)
          else
            let fs1 = set_free_count (fsinfo st1) (free_count (fsinfo st1) + total_clusters);
                fs2 = (if next_free fs1 > lowest_cluster then set_next_free fs1 lowest_cluster
                       else fs1);
                st2 = st1\<lparr>fsinfo := fs2\<rparr>
            in (case write_sector st2 (ucast (fat32_info (boot_sector st2))) (fsinfo st2) of
                  Inl e \<Rightarrow> Some (e, st2)
                | Inr st3 \<Rightarrow> Some (FAT32_OK, st3)))"

text \<open>
  \<^verbatim>\<open>seek_to_cluster\<close>: the loop runs \<^verbatim>\<open>offset\<close> times unless it returns
  early, so it recurses on the number of rounds left.
\<close>

fun seek_loop :: "fat32_state \<Rightarrow> u32 \<Rightarrow> nat \<Rightarrow> fat32_error_t + u32" where
  "seek_loop st cluster 0 = Inr cluster"
| "seek_loop st cluster (Suc n) =
     (case read_cluster_fat_entry st cluster of
        Inl e \<Rightarrow> Inl e
      | Inr next_cluster \<Rightarrow>
          if next_cluster \<ge> FAT32_FAT_ENTRY_EOC then Inl FAT32_ERROR_INVALID_POSITION
          else seek_loop st next_cluster n)"

definition seek_to_cluster :: "fat32_state \<Rightarrow> u32 \<Rightarrow> u32 \<Rightarrow> fat32_error_t + u32" where
  "seek_to_cluster st start offset = seek_loop st start (unat offset)"

section \<open>Mounting\<close>

definition sd_card_present :: "sd_card \<Rightarrow> bool" where
  "sd_card_present c = sd_present c"

text \<open>
  \<^verbatim>\<open>sd_card_init\<close> drives the card through its start-up protocol and answers
  \<^verbatim>\<open>SD_OK\<close> or \<^verbatim>\<open>SD_ERROR_INIT_FAILED\<close>.
\<close>

definition sd_card_init :: "sd_card \<Rightarrow> fat32_error_t" where
  "sd_card_init c = sd_init_result c"

definition is_sector_mbr :: "sector \<Rightarrow> bool" where
  "is_sector_mbr s =
     (if s 510 \<noteq> 0x55 \<or> s 511 \<noteq> 0xAA then False
      else list_ex (\<lambda>i. s (446 + i * 16 + 4) \<noteq> 0x00) [0, 1, 2, 3])"

definition is_sector_boot_sector :: "sector \<Rightarrow> bool" where
  "is_sector_boot_sector s =
     (if s 510 \<noteq> 0x55 \<or> s 511 \<noteq> 0xAA then False
      else if s 0 \<noteq> 0xEB \<and> s 0 \<noteq> 0xE9 then False
      else let bps = le16 s 11 in
        if bps \<noteq> 512 \<and> bps \<noteq> 1024 \<and> bps \<noteq> 2048 \<and> bps \<noteq> 4096 then False
        else True)"

definition is_valid_fat32_boot_sector :: "fat32_boot_sector_t \<Rightarrow> fat32_error_t" where
  "is_valid_fat32_boot_sector bs =
     (if bytes_per_sector bs \<noteq> 512 then FAT32_ERROR_INVALID_FORMAT
      else let spc = sectors_per_cluster bs in
        if spc = 0 \<or> spc > 128 \<or> spc AND (spc - 1) \<noteq> 0 then FAT32_ERROR_INVALID_FORMAT
        else if num_fats bs = 0 \<or> num_fats bs > 2 then FAT32_ERROR_INVALID_FORMAT
        else if reserved_sectors bs = 0 then FAT32_ERROR_INVALID_FORMAT
        else if fat_size_16 bs \<noteq> 0 \<or> fat_size_32 bs = 0 then FAT32_ERROR_INVALID_FORMAT
        else if total_sectors_32 bs = 0 then FAT32_ERROR_INVALID_FORMAT
        else FAT32_OK)"

definition fat32_unmount :: "fat32_state \<Rightarrow> fat32_state" where
  "fat32_unmount st =
     st\<lparr>fat32_mounted := False, mount_status := FAT32_ERROR_NO_CARD,
        volume_start_block := 0, first_data_sector := 0, data_region_sectors := 0,
        cluster_count := 0, bytes_per_cluster := 0, current_dir_cluster := 0\<rparr>"

text \<open>
  The loop of \<^verbatim>\<open>fat32_mount\<close> over the four partition table entries of the
  sector at block 0.  Entry \<open>i\<close> starts at byte \<open>446 + i * 16\<close>; its
  \<^verbatim>\<open>boot_indicator\<close> is byte 0 of it, its \<^verbatim>\<open>partition_type\<close> byte 4 and its
  \<^verbatim>\<open>start_lba\<close> the four bytes from 8.  The result is the \<^verbatim>\<open>start_lba\<close> of
  the entry at which the loop breaks, if it does.
\<close>

fun scan_partitions :: "sector \<Rightarrow> nat list \<Rightarrow> u32 option" where
  "scan_partitions s [] = None"
| "scan_partitions s (i # is) =
     (let e = 446 + i * 16 in
      if s e \<noteq> 0x00 \<and> s e \<noteq> 0x80 then scan_partitions s is
      else if s (e + 4) = 0x0B \<or> s (e + 4) = 0x0C then Some (le32 s (e + 8))
      else scan_partitions s is)"

declare scan_partitions.simps [simp del]

text \<open>
  The first half of \<^verbatim>\<open>fat32_mount\<close> after the card has answered: block 0 is
  read and the boot sector of the volume located, behind a partition table or at
  block 0 itself.  It yields the state with \<^verbatim>\<open>volume_start_block\<close> set and the
  boot sector's bytes, or the error \<^verbatim>\<open>fat32_mount\<close> returns at that point.
\<close>

definition locate_boot_sector ::
  "fat32_state \<Rightarrow> fat32_error_t \<times> fat32_state + fat32_state \<times> sector" where
  "locate_boot_sector st =
     (case sd_read_block (card st) 0 of
        Inl e \<Rightarrow> Inl (e, st)
      | Inr buf0 \<Rightarrow>
          if is_sector_mbr buf0 then
            (case scan_partitions buf0 [0, 1, 2, 3] of
               None \<Rightarrow> Inl (FAT32_ERROR_INVALID_FORMAT, st\<lparr>volume_start_block := 0\<rparr>)
             | Some lba \<Rightarrow>
                 (let st1 = st\<lparr>volume_start_block := lba\<rparr> in
                  case sd_read_block (card st1) (volume_start_block st1) of
                    Inl e \<Rightarrow> Inl (e, st1)
                  | Inr buf \<Rightarrow>
                      if volume_start_block st1 = 0
                      then Inl (FAT32_ERROR_INVALID_FORMAT, st1)
                      else Inr (st1, buf)))
          else if is_sector_boot_sector buf0 then Inr (st\<lparr>volume_start_block := 0\<rparr>, buf0)
          else Inl (FAT32_ERROR_INVALID_FORMAT, st))"

text \<open>
  The second half of \<^verbatim>\<open>fat32_mount\<close>: the boot sector is copied and validated,
  the geometry computed, the cluster count checked and the FSInfo sector cached and
  checked.  The products are taken in \<^verbatim>\<open>uint32_t\<close>, as C's conversions make
  them.
\<close>

definition mount_volume :: "fat32_state \<Rightarrow> sector \<Rightarrow> fat32_error_t \<times> fat32_state" where
  "mount_volume st buf =
     (let bs = parse_boot_sector buf;
          st1 = st\<lparr>boot_sector := bs\<rparr>
      in if is_valid_fat32_boot_sector bs \<noteq> FAT32_OK
         then (is_valid_fat32_boot_sector bs, st1)
         else
           let st2 = st1\<lparr>bytes_per_cluster := ucast (sectors_per_cluster bs) * FAT32_SECTOR_SIZE\<rparr>;
               st3 = st2\<lparr>first_data_sector :=
                       ucast (reserved_sectors bs) + ucast (num_fats bs) * fat_size_32 bs\<rparr>;
               st4 = st3\<lparr>data_region_sectors :=
                       total_sectors_32 bs - ucast (num_fats bs) * fat_size_32 bs\<rparr>;
               st5 = st4\<lparr>cluster_count :=
                       data_region_sectors st4 div ucast (sectors_per_cluster bs)\<rparr>
           in if cluster_count st5 < 65525 then (FAT32_ERROR_INVALID_FORMAT, st5)
              else
                let st6 = st5\<lparr>current_dir_cluster := root_cluster bs\<rparr> in
                case read_sector st6 (ucast (fat32_info bs)) of
                  Inl e \<Rightarrow> (e, st6)
                | Inr fs \<Rightarrow>
                    let st7 = st6\<lparr>fsinfo := fs\<rparr> in
                    if lead_sig fs \<noteq> 0x41615252 \<or> struc_sig fs \<noteq> 0x61417272 \<or>
                       trail_sig fs \<noteq> 0xAA550000
                    then (FAT32_ERROR_INVALID_FORMAT, st7)
                    else (FAT32_OK, st7\<lparr>fat32_mounted := True\<rparr>))"

definition fat32_mount :: "fat32_state \<Rightarrow> fat32_error_t \<times> fat32_state" where
  "fat32_mount st =
     (if \<not> sd_card_present (card st) then (FAT32_ERROR_NO_CARD, fat32_unmount st)
      else if fat32_mounted st then (FAT32_OK, st)
      else if sd_card_init (card st) \<noteq> FAT32_OK then (sd_card_init (card st), st)
      else case locate_boot_sector st of
        Inl (e, st') \<Rightarrow> (e, st')
      | Inr (st', buf) \<Rightarrow> mount_volume st' buf)"

definition fat32_is_ready :: "fat32_state \<Rightarrow> bool \<times> fat32_state" where
  "fat32_is_ready st =
     (let st' =
        (if sd_card_present (card st) then
           (if \<not> fat32_mounted st
            then (case fat32_mount st of (r, st1) \<Rightarrow> st1\<lparr>mount_status := r\<rparr>)
            else st)
         else
           (if fat32_mounted st then fat32_unmount st else st)\<lparr>mount_status := FAT32_ERROR_NO_CARD\<rparr>)
      in (mount_status st' = FAT32_OK, st'))"

section \<open>File handles\<close>

text \<open>
  \<^verbatim>\<open>fat32_close\<close>.  The handle is passed by pointer: \<open>None\<close> is the null
  pointer.  The function has the file-scope state in reach, so the model passes
  the state through it.
\<close>

definition fat32_close ::
  "fat32_state \<Rightarrow> fat32_file_t option \<Rightarrow> fat32_error_t \<times> fat32_state \<times> fat32_file_t option" where
  "fat32_close st file =
     (case file of
        None \<Rightarrow> (FAT32_OK, st, None)
      | Some f \<Rightarrow>
          if is_open f then (FAT32_OK, st, Some zero_file) else (FAT32_OK, st, Some f))"

abbreviation (input) FAT32_ATTR_DIRECTORY :: u8 where "FAT32_ATTR_DIRECTORY \<equiv> 0x10"
abbreviation (input) FAT32_ATTR_LONG_NAME :: u8 where "FAT32_ATTR_LONG_NAME \<equiv> 0x0F"
abbreviation (input) FAT32_DIR_ENTRY_FREE :: u8 where "FAT32_DIR_ENTRY_FREE \<equiv> 0xE5"

section \<open>Reading a file\<close>

text \<open>
  The copy loop of \<^verbatim>\<open>fat32_read\<close>, from the state \<^verbatim>\<open>total_read\<close> bytes into
  the request: the bytes copied so far are \<open>dest\<close>.  It yields the error (or
  \<^verbatim>\<open>FAT32_OK\<close> when the loop ends or breaks at the end of the chain), the handle,
  \<^verbatim>\<open>total_read\<close> and the bytes copied.  Reading changes nothing of the driver
  state.
\<close>

definition bytes_to_copy :: "u32 \<Rightarrow> u32 \<Rightarrow> u32 \<Rightarrow> u32" where
  "bytes_to_copy byte_in_sector sz total_read =
     (if FAT32_SECTOR_SIZE - byte_in_sector > sz - total_read then sz - total_read
      else FAT32_SECTOR_SIZE - byte_in_sector)"

lemma read_loop_decreases:
  assumes "total_read < (sz :: u32)"
  shows "unat sz - unat (total_read + bytes_to_copy (x mod FAT32_SECTOR_SIZE) sz total_read)
    < unat sz - unat total_read"
proof -
  let ?b = "x mod FAT32_SECTOR_SIZE"
  let ?n = "bytes_to_copy ?b sz total_read"
  have b: "unat ?b < 512"
    by (simp add: unat_mod)
  then have s: "unat (FAT32_SECTOR_SIZE - ?b) = 512 - unat ?b"
    by (simp add: unat_sub word_le_nat_alt)
  have d: "unat (sz - total_read) = unat sz - unat total_read"
    using assms by (simp add: unat_sub word_less_nat_alt word_le_nat_alt)
  have pos: "0 < unat sz - unat total_read"
    using assms by (simp add: word_less_nat_alt)
  have n: "0 < unat ?n \<and> unat ?n \<le> unat sz - unat total_read"
    using b s d pos by (simp add: bytes_to_copy_def word_less_nat_alt)
  with pos have "unat total_read + unat ?n \<le> unat sz"
    by linarith
  then have "unat total_read + unat ?n < 2 ^ 32"
    using unsigned_less [of sz, where ?'a = nat] by simp
  then have "unat (total_read + ?n) = unat total_read + unat ?n"
    by (simp add: unat_add_lem [THEN iffD1])
  with n pos show ?thesis by linarith
qed




section \<open>Directory entries\<close>

text \<open>
  \<^verbatim>\<open>fat32_entry_t\<close>; the fields carry the prefix \<open>entry_\<close> to keep them
  apart from those of the file handle.
\<close>

record fat32_entry_t =
  entry_filename :: string
  entry_size :: u32
  entry_date :: u16
  entry_time :: u16
  entry_start_cluster :: u32
  entry_attr :: u8
  entry_sector :: u32
  entry_offset_in_sector :: u32

text \<open>
  The backwards scan of \<^verbatim>\<open>unlink_entry\<close> over the sector buffer, from round
  \<open>i\<close> on: slot \<open>i\<close> before the record at \<open>offset\<close> is marked deleted if
  its attribute byte (byte 11 of the slot) is the long-name marker, and the scan
  stops at the first slot that is not, at the start of the buffer, or after
  \<^verbatim>\<open>MAX_LFN_PART\<close> = 20 slots.
\<close>

function mark_lfn_slots :: "sector \<Rightarrow> nat \<Rightarrow> nat \<Rightarrow> sector" where
  "mark_lfn_slots buf offset i =
     (if i \<le> 20 then
        if offset < i * 32 then buf
        else if buf (offset - i * 32 + 11) = FAT32_ATTR_LONG_NAME
        then mark_lfn_slots (buf(offset - i * 32 := FAT32_DIR_ENTRY_FREE)) offset (i + 1)
        else buf
      else buf)"
  by pat_completeness auto
termination
  by (relation "measure (\<lambda>(buf, offset, i). 21 - i)") auto

declare mark_lfn_slots.simps [simp del]

text \<open>
  \<^verbatim>\<open>unlink_entry\<close>, for an entry whose \<^verbatim>\<open>offset\<close> lies in the sector, as
  those that \<^verbatim>\<open>fat32_dir_read\<close> and \<^verbatim>\<open>link_entry\<close> produce do.
\<close>

definition unlink_entry ::
  "fat32_state \<Rightarrow> fat32_entry_t option \<Rightarrow> fat32_error_t \<times> fat32_state" where
  "unlink_entry st entry =
     (case entry of
        None \<Rightarrow> (FAT32_ERROR_INVALID_PARAMETER, st)
      | Some e \<Rightarrow>
          if entry_start_cluster e = 0 then (FAT32_ERROR_INVALID_PARAMETER, st)
          else
            let sector = entry_sector e;
                offset = unat (entry_offset_in_sector e)
            in (case read_sector st sector of
                 Inl err \<Rightarrow> (err, st)
               | Inr buf \<Rightarrow>
                   let buf1 = mark_lfn_slots buf offset 1;
                       buf2 = buf1(offset := FAT32_DIR_ENTRY_FREE)
                   in (case write_sector st sector buf2 of
                        Inl err \<Rightarrow> (err, st)
                      | Inr st' \<Rightarrow> (FAT32_OK, st'))))"

section \<open>File names\<close>

text \<open>
  C strings are modelled by their characters before the terminator.  \<^verbatim>\<open>char\<close>
  is unsigned on the target, and \<^verbatim>\<open>toupper\<close> and \<^verbatim>\<open>tolower\<close> are those of
  the C locale: they change the 26 ASCII letters only.
\<close>

definition toupper :: "char \<Rightarrow> char" where
  "toupper c =
     (let n = (of_char c :: nat) in if 97 \<le> n \<and> n \<le> 122 then char_of (n - 32) else c)"

definition tolower :: "char \<Rightarrow> char" where
  "tolower c =
     (let n = (of_char c :: nat) in if 65 \<le> n \<and> n \<le> 90 then char_of (n + 32) else c)"

text \<open>
  \<^verbatim>\<open>strchr\<close> and \<^verbatim>\<open>strrchr\<close> give the index of the first and of the last
  occurrence of a character, \<open>None\<close> for the null pointer.
\<close>

definition strchr :: "string \<Rightarrow> char \<Rightarrow> nat option" where
  "strchr s c = (if c \<in> set s then Some (length (takeWhile (\<lambda>x. x \<noteq> c) s)) else None)"

definition strrchr :: "string \<Rightarrow> char \<Rightarrow> nat option" where
  "strrchr s c =
     (if c \<in> set s then Some (length s - 1 - length (takeWhile (\<lambda>x. x \<noteq> c) (rev s)))
      else None)"

text \<open>
  A field of a short name: the characters, then spaces up to the width of the
  field (\<^verbatim>\<open>memset(shortname, ' ', 11)\<close> before the copies).
\<close>

definition pad :: "nat \<Rightarrow> string \<Rightarrow> string" where
  "pad n s = s @ replicate (n - length s) CHR '' ''"

definition filename_to_shortname :: "string \<Rightarrow> string" where
  "filename_to_shortname filename =
     (let dot = strrchr filename CHR ''.'';
          name_len = (case dot of Some d \<Rightarrow> d | None \<Rightarrow> length filename);
          name = map toupper (take (min name_len 8) filename);
          ext = (case dot of
                   Some d \<Rightarrow> map toupper (take 3 (drop (d + 1) filename))
                 | None \<Rightarrow> [])
      in pad 8 name @ pad 3 ext)"

definition shortname_to_filename :: "string \<Rightarrow> string" where
  "shortname_to_filename shortname =
     (let name = map tolower (takeWhile (\<lambda>c. c \<noteq> CHR '' '') (take 8 shortname));
          ext = map tolower (filter (\<lambda>c. c \<noteq> CHR '' '') (take 3 (drop 8 shortname)))
      in if ext = [] then name else name @ CHR ''.'' # ext)"

text \<open>
  \<^verbatim>\<open>valid_shortname\<close>.  The lengths are unsigned here, so the test
  \<^verbatim>\<open>ext_len < 0\<close> of the source, which no input meets, has no counterpart.
\<close>

definition forbidden :: string where
  "forbidden = [CHR 0x22, CHR ''*'', CHR ''+'', CHR '','', CHR ''.'', CHR ''/'', CHR '':'',
     CHR '';'', CHR ''<'', CHR ''='', CHR ''>'', CHR ''?'', CHR ''['', CHR 0x5C, CHR '']'',
     CHR ''|'']"

definition bad_char :: "char \<Rightarrow> bool" where
  "bad_char c = ((of_char c :: nat) \<le> 0x20 \<or> c \<in> set forbidden)"

definition valid_shortname :: "string \<Rightarrow> bool" where
  "valid_shortname filename =
     (let len = length filename in
      if len < 1 \<or> len > 12 then False
      else
        let dot = strchr filename CHR ''.'' in
        if dot \<noteq> None \<and> dot \<noteq> strrchr filename CHR ''.'' then False
        else if dot = Some 0 then False
        else
          let name_len = (case dot of Some d \<Rightarrow> d | None \<Rightarrow> len);
              ext_len = (case dot of Some d \<Rightarrow> len - name_len - 1 | None \<Rightarrow> 0)
          in if name_len < 1 \<or> name_len > 8 then False
             else if ext_len > 3 then False
             else if list_ex bad_char (take name_len filename) then False
             else if dot \<noteq> None \<and> list_ex bad_char (take ext_len (drop (name_len + 1) filename))
               then False
             else True)"



text \<open>
  \<^verbatim>\<open>shortname_exists\<close> scans the directory with \<^verbatim>\<open>fat32_dir_read\<close> and
  compares the short form of every entry's file name with the candidate.  The
  directory is given by the file names that scan yields, in order.
\<close>

definition shortname_exists :: "string \<Rightarrow> string list \<Rightarrow> bool" where
  "shortname_exists shortname dir =
     list_ex (\<lambda>filename. filename_to_shortname filename = shortname) dir"

text \<open>
  \<^verbatim>\<open>unique_shortname\<close>, for long names of at most \<^verbatim>\<open>FAT32_MAX_FILENAME_LEN\<close>
  characters.  \<open>shortname_parts\<close> is its steps 1 to 5 and the extension: the base
  of up to 8 characters, the extension of up to 3, and the lossy flag.
  \<open>tail_candidate\<close> is the candidate built in one round of the numeric-tail loop
  and \<open>numeric_tail\<close> the loop from \<open>n\<close> on.
\<close>

definition oem_char :: "char \<Rightarrow> bool" where
  "oem_char c =
     ((65 \<le> (of_char c :: nat) \<and> (of_char c :: nat) \<le> 90) \<or>
      (48 \<le> (of_char c :: nat) \<and> (of_char c :: nat) \<le> 57) \<or>
      c \<in> set [CHR ''$'', CHR ''%'', CHR 0x27, CHR ''-'', CHR ''_'', CHR ''@'', CHR ''~'',
        CHR 0x60, CHR ''!'', CHR ''('', CHR '')'', CHR ''{'', CHR ''}'', CHR ''^'', CHR ''#'',
        CHR ''&''])"

definition sanitize :: "char \<Rightarrow> char" where
  "sanitize c = (if oem_char c then c else CHR ''_'')"

function decimal :: "nat \<Rightarrow> string" where
  "decimal n = (if n < 10 then [char_of (48 + n)] else decimal (n div 10) @ [char_of (48 + n mod 10)])"
  by pat_completeness auto
termination
  by (relation "measure id") auto

declare decimal.simps [simp del]

definition tail_candidate :: "string \<Rightarrow> string \<Rightarrow> nat \<Rightarrow> string" where
  "tail_candidate base ext n =
     (let tail = CHR ''~'' # decimal n;
          tail_len = length tail;
          base_len = (if 8 - tail_len > length base then length base else 8 - tail_len)
      in pad 8 (take base_len base @ tail) @ pad 3 ext)"

function numeric_tail :: "string list \<Rightarrow> string \<Rightarrow> string \<Rightarrow> nat \<Rightarrow> fat32_error_t + string" where
  "numeric_tail dir base ext n =
     (if n < 1000000 then
        if \<not> shortname_exists (tail_candidate base ext n) dir
        then Inr (tail_candidate base ext n)
        else numeric_tail dir base ext (n + 1)
      else Inl FAT32_ERROR_DISK_FULL)"
  by pat_completeness auto
termination
  by (relation "measure (\<lambda>(dir, base, ext, n). 1000000 - n)") auto

declare numeric_tail.simps [simp del]

definition shortname_parts :: "string \<Rightarrow> string \<times> string \<times> bool" where
  "shortname_parts longname =
     (let upper = map toupper longname;
          temp = filter (\<lambda>c. c \<noteq> CHR '' '') upper;
          p = dropWhile (\<lambda>c. c = CHR ''.'') temp;
          dot = (case strrchr p CHR ''.'' of Some 0 \<Rightarrow> None | d \<Rightarrow> d);
          stem = take 8 (case dot of Some d \<Rightarrow> take d p | None \<Rightarrow> p);
          tail = (case dot of Some d \<Rightarrow> take 3 (drop (d + 1) p) | None \<Rightarrow> []);
          lossy = (list_ex (\<lambda>c. \<not> oem_char c) stem \<or> list_ex (\<lambda>c. \<not> oem_char c) tail)
      in (map sanitize stem, map sanitize tail, lossy))"

definition unique_shortname :: "string list \<Rightarrow> string \<Rightarrow> fat32_error_t + string" where
  "unique_shortname dir longname =
     (case shortname_parts longname of (base, ext, lossy) \<Rightarrow>
        let name_len = length base;
            ext_len = length ext;
            candidate = pad 8 base @ pad 3 ext;
            need_tail = (lossy \<or> name_len > 8 \<or> ext_len > 3 \<or> shortname_exists candidate dir)
        in if \<not> need_tail then Inr candidate
           else numeric_tail dir base ext 1)"

section \<open>Allocating clusters\<close>

text \<open>
  \<^verbatim>\<open>get_next_free_cluster\<close> scans the FAT from the FSInfo hint, or from cluster 2
  when the hint is unknown, up to the last cluster of the volume, and returns the
  first cluster whose entry is free.  Its counter is a \<^verbatim>\<open>uint32_t\<close> that stays
  below \<^verbatim>\<open>cluster_count + 2\<close>, which is why the loop ends.
\<close>

lemma word_loop_decreases:
  assumes "i < (m :: u32)"
  shows "unat m - unat (i + 1) < unat m - unat i"
proof -
  have "unat i < unat m"
    using assms by (simp add: word_less_nat_alt)
  moreover have "unat m < 2 ^ 32"
    using unsigned_less [of m, where ?'a = nat] by simp
  ultimately have "unat i + unat (1 :: u32) < 2 ^ 32"
    by simp
  then have "unat (i + 1) = unat i + unat (1 :: u32)"
    by (intro unat_add_lem [THEN iffD1]) simp
  with \<open>unat i < unat m\<close> show ?thesis
    by simp
qed

function free_cluster_loop :: "fat32_state \<Rightarrow> u32 \<Rightarrow> fat32_error_t + u32" where
  "free_cluster_loop st i =
     (if i < cluster_count st + 2 then
        (case read_cluster_fat_entry st i of
           Inl e \<Rightarrow> Inl e
         | Inr v \<Rightarrow>
             if v = FAT32_FAT_ENTRY_FREE then Inr i else free_cluster_loop st (i + 1))
      else Inl FAT32_ERROR_DISK_FULL)"
  by pat_completeness auto

termination
  by (relation "measure (\<lambda>(st, i). unat (cluster_count st + 2) - unat i)")
     (simp_all add: word_loop_decreases)

declare free_cluster_loop.simps [simp del]

definition get_next_free_cluster :: "fat32_state \<Rightarrow> fat32_error_t + u32" where
  "get_next_free_cluster st =
     free_cluster_loop st
       (if next_free (fsinfo st) \<noteq> 0xFFFFFFFF then next_free (fsinfo st) else 2)"

text \<open>
  \<^verbatim>\<open>find_last_cluster\<close> follows \<^verbatim>\<open>count - 1\<close> links from the start cluster and
  returns the cluster it arrives at, whatever the entries hold.
\<close>

fun find_last_loop :: "fat32_state \<Rightarrow> u32 \<Rightarrow> nat \<Rightarrow> fat32_error_t + u32" where
  "find_last_loop st last_cluster 0 = Inr last_cluster"
| "find_last_loop st last_cluster (Suc n) =
     (case read_cluster_fat_entry st last_cluster of
        Inl e \<Rightarrow> Inl e
      | Inr next_cluster \<Rightarrow> find_last_loop st next_cluster n)"

definition find_last_cluster :: "fat32_state \<Rightarrow> u32 \<Rightarrow> u32 \<Rightarrow> fat32_error_t + u32" where
  "find_last_cluster st start count = find_last_loop st start (unat count - 1)"

text \<open>
  After every allocation the driver decrements a known free count and writes the
  FSInfo sector back (\<^verbatim>\<open>if (fsinfo.free_count != 0xFFFFFFFF)\<close> ...).  The result of
  \<^verbatim>\<open>update_fsinfo\<close> is dropped: when the write fails the decremented count stays
  in memory only.  The three places that do this share \<open>count_allocation\<close>.
\<close>

definition count_allocation :: "fat32_state \<Rightarrow> fat32_state" where
  "count_allocation st =
     (if free_count (fsinfo st) \<noteq> 0xFFFFFFFF then
        let st1 = st\<lparr>fsinfo := set_free_count (fsinfo st) (free_count (fsinfo st) - 1)\<rparr>
        in (case update_fsinfo st1 of Inl e \<Rightarrow> st1 | Inr st2 \<Rightarrow> st2)
      else st)"

text \<open>
  \<^verbatim>\<open>allocate_and_link_cluster\<close>: an error comes with the state reached so far,
  success with the new state and the new cluster.
\<close>

definition allocate_and_link_cluster ::
  "fat32_state \<Rightarrow> u32 \<Rightarrow> fat32_error_t \<times> fat32_state + fat32_state \<times> u32" where
  "allocate_and_link_cluster st last_cluster =
     (case get_next_free_cluster st of
        Inl e \<Rightarrow> Inl (e, st)
      | Inr new_cluster \<Rightarrow>
          (case write_cluster_fat_entry st last_cluster new_cluster of
             Inl e \<Rightarrow> Inl (e, st)
           | Inr st1 \<Rightarrow>
               (case write_cluster_fat_entry st1 new_cluster FAT32_FAT_ENTRY_EOC of
                  Inl e \<Rightarrow> Inl (e, st1)
                | Inr st2 \<Rightarrow> Inr (count_allocation st2, new_cluster))))"

section \<open>Creating a file\<close>

text \<open>
  \<^verbatim>\<open>link_entry\<close> first looks the path up, opens the parent directory, derives the
  short name, finds a run of free slots and writes the long-name fragments into
  it.  What it has found by then is in its locals \<^verbatim>\<open>shortname\<close>,
  \<^verbatim>\<open>free_entry_pos\<close>, \<^verbatim>\<open>free_entry_cluster\<close> and \<^verbatim>\<open>needed_entries\<close>, here the
  record \<open>free_slots\<close>.  \<open>link_entry_tail\<close> is the rest of the function, from
  the comment "Allocate a new cluster for the file, if needed" to its end, run in
  the state that the first part has left and with those locals: it allocates a
  start cluster for an entry that has none, marks it end-of-cluster_chain, and writes the
  8.3 record of the entry (\<open>put_dir_entry\<close> is the \<^verbatim>\<open>memcpy\<close> of the 32-byte
  record, all fields but name, attribute, start cluster and size zero).
  \<^verbatim>\<open>get_next_free_cluster\<close> writes the cluster through the pointer only when it
  succeeds.
\<close>

record free_slots =
  shortname :: string
  free_entry_pos :: u32
  free_entry_cluster :: u32
  needed_entries :: u32








section \<open>Writing a file\<close>

text \<open>
  \<^verbatim>\<open>fat32_write\<close> in its phases.  \<^verbatim>\<open>size_t\<close> is 32 bits wide on the target (an
  RP2040), so \<^verbatim>\<open>size\<close>, \<^verbatim>\<open>total_written\<close> and \<^verbatim>\<open>pos_in_file\<close> are \<open>u32\<close>.

  \<open>position_loop\<close> is the first loop, which walks \<^verbatim>\<open>position / bytes_per_cluster\<close>
  links from the start cluster and allocates a cluster wherever it meets the end of
  the cluster_chain.  \<open>grow_loop\<close> is the loop that allocates the clusters from
  \<^verbatim>\<open>current_clusters\<close> up to \<^verbatim>\<open>needed_clusters\<close>; its counter starts at
  \<^verbatim>\<open>current_clusters\<close>.
\<close>

fun position_loop ::
  "fat32_state \<Rightarrow> u32 \<Rightarrow> nat \<Rightarrow> fat32_error_t \<times> fat32_state + fat32_state \<times> u32" where
  "position_loop st cluster 0 = Inr (st, cluster)"
| "position_loop st cluster (Suc n) =
     (case read_cluster_fat_entry st cluster of
        Inl e \<Rightarrow> Inl (e, st)
      | Inr next_cluster \<Rightarrow>
          if next_cluster \<ge> FAT32_FAT_ENTRY_EOC then
            (case allocate_and_link_cluster st cluster of
               Inl r \<Rightarrow> Inl r
             | Inr (st', new_cluster) \<Rightarrow> position_loop st' new_cluster n)
          else position_loop st next_cluster n)"

function grow_loop ::
  "fat32_state \<Rightarrow> fat32_file_t \<Rightarrow> u32 \<Rightarrow> u32 \<Rightarrow> u32 \<Rightarrow> u32 \<Rightarrow>
     fat32_error_t \<times> fat32_state \<times> fat32_file_t + fat32_state \<times> fat32_file_t \<times> u32" where
  "grow_loop st file current_clusters needed_clusters i last_cluster =
     (if i < needed_clusters then
        if current_clusters > 0 \<or> i > 0 then
          (case allocate_and_link_cluster st last_cluster of
             Inl (e, st') \<Rightarrow> Inl (e, st', file)
           | Inr (st', new_cluster) \<Rightarrow>
               grow_loop st' file current_clusters needed_clusters (i + 1) new_cluster)
        else
          (case get_next_free_cluster st of
             Inl e \<Rightarrow> Inl (e, st, file)
           | Inr new_cluster \<Rightarrow>
               (case write_cluster_fat_entry st new_cluster FAT32_FAT_ENTRY_EOC of
                  Inl e \<Rightarrow> Inl (e, st, file)
                | Inr st1 \<Rightarrow>
                    grow_loop (count_allocation st1) (file\<lparr>start_cluster := new_cluster\<rparr>)
                      current_clusters needed_clusters (i + 1) new_cluster))
      else Inr (st, file, last_cluster))"
  by pat_completeness auto

termination
  by (relation "measure (\<lambda>(st, file, current_clusters, needed_clusters, i, last_cluster).
        unat needed_clusters - unat i)")
     (simp_all add: word_loop_decreases)

declare grow_loop.simps [simp del]

text \<open>
  The copy loop.  \<open>write_round\<close> is one pass through its body: read the sector,
  copy \<^verbatim>\<open>bytes_to_write\<close> bytes of the source into it, write it back, and step to
  the next cluster when the position has reached a cluster boundary and bytes are
  left.  A pass yields an error with the state and handle reached, or the new
  state, handle, cluster, position and count.  \<open>write_loop\<close> repeats it while
  \<^verbatim>\<open>total_written < size\<close>; every pass writes at least one byte.
\<close>

definition bytes_to_write :: "u32 \<Rightarrow> u32 \<Rightarrow> u32 \<Rightarrow> u32" where
  "bytes_to_write byte_in_sector sz total_written =
     (if FAT32_SECTOR_SIZE - byte_in_sector > sz - total_written then sz - total_written
      else FAT32_SECTOR_SIZE - byte_in_sector)"

lemma write_loop_decreases:
  assumes "total_written < (sz :: u32)"
  shows "unat sz - unat (total_written + bytes_to_write (x mod FAT32_SECTOR_SIZE) sz total_written)
    < unat sz - unat total_written"
  using read_loop_decreases [OF assms, of x]
  by (simp add: bytes_to_write_def bytes_to_copy_def)

definition copy_in :: "sector \<Rightarrow> nat \<Rightarrow> (nat \<Rightarrow> u8) \<Rightarrow> nat \<Rightarrow> nat \<Rightarrow> sector" where
  "copy_in buf off src from n =
     (\<lambda>k. if off \<le> k \<and> k < off + n then src (from + (k - off)) else buf k)"

definition write_round ::
  "fat32_state \<Rightarrow> fat32_file_t \<Rightarrow> (nat \<Rightarrow> u8) \<Rightarrow> u32 \<Rightarrow> u32 \<Rightarrow> u32 \<Rightarrow> u32 \<Rightarrow>
     fat32_error_t \<times> fat32_state \<times> fat32_file_t +
     fat32_state \<times> fat32_file_t \<times> u32 \<times> u32 \<times> u32" where
  "write_round st file src sz cluster pos_in_file total_written =
     (let offset_in_cluster = pos_in_file mod bytes_per_cluster st;
          sector_in_cluster = offset_in_cluster div FAT32_SECTOR_SIZE;
          byte_in_sector = offset_in_cluster mod FAT32_SECTOR_SIZE;
          sector = cluster_to_sector st cluster + sector_in_cluster
      in (case read_sector st sector of
            Inl e \<Rightarrow> Inl (e, st, file)
          | Inr buf \<Rightarrow>
              let n = bytes_to_write byte_in_sector sz total_written;
                  buf' = copy_in buf (unat byte_in_sector) src (unat total_written) (unat n)
              in (case write_sector st sector buf' of
                    Inl e \<Rightarrow> Inl (e, st, file)
                  | Inr st' \<Rightarrow>
                      let total_written' = total_written + n;
                          pos_in_file' = pos_in_file + n
                      in if pos_in_file' mod bytes_per_cluster st = 0 \<and> total_written' < sz
                         then
                           (case read_cluster_fat_entry st' cluster of
                              Inl e \<Rightarrow> Inl (FAT32_ERROR_DISK_FULL, st', file)
                            | Inr next_cluster \<Rightarrow>
                                if next_cluster \<ge> FAT32_FAT_ENTRY_EOC
                                then Inl (FAT32_ERROR_DISK_FULL, st', file)
                                else Inr (st', file\<lparr>current_cluster := next_cluster\<rparr>,
                                          next_cluster, pos_in_file', total_written'))
                         else Inr (st', file, cluster, pos_in_file', total_written'))))"

lemma write_round_total:
  assumes "write_round st file src sz cluster pos_in_file total_written =
    Inr (st', file', cluster', pos_in_file', total_written')"
  shows "total_written' = total_written +
      bytes_to_write ((pos_in_file mod bytes_per_cluster st) mod FAT32_SECTOR_SIZE) sz total_written"
    and "pos_in_file' = pos_in_file +
      bytes_to_write ((pos_in_file mod bytes_per_cluster st) mod FAT32_SECTOR_SIZE) sz total_written"
  using assms
  by (auto simp add: write_round_def Let_def split: sum.splits if_splits)

function write_loop ::
  "fat32_state \<Rightarrow> fat32_file_t \<Rightarrow> (nat \<Rightarrow> u8) \<Rightarrow> u32 \<Rightarrow> u32 \<Rightarrow> u32 \<Rightarrow> u32 \<Rightarrow>
     fat32_error_t \<times> fat32_state \<times> fat32_file_t + fat32_state \<times> fat32_file_t \<times> u32 \<times> u32" where
  "write_loop st file src sz cluster pos_in_file total_written =
     (if total_written < sz then
        (case write_round st file src sz cluster pos_in_file total_written of
           Inl r \<Rightarrow> Inl r
         | Inr (st', file', cluster', pos_in_file', total_written') \<Rightarrow>
             write_loop st' file' src sz cluster' pos_in_file' total_written')
      else Inr (st, file, pos_in_file, total_written))"
  by pat_completeness auto

termination
proof (relation "measure (\<lambda>(st, file, src, sz, cluster, pos_in_file, total_written).
        unat sz - unat total_written)", goal_cases)
  case 1
  show ?case by simp
next
  case (2 st f0 src sz cluster pos_in_file total_written x2 st' y f1 z cluster' w
      pos_in_file' total_written')
  then have "write_round st f0 src sz cluster pos_in_file total_written =
      Inr (st', f1, cluster', pos_in_file', total_written')"
    by simp
  from write_round_total(1) [OF this] 2(1) show ?case
    by (simp add: write_loop_decreases)
qed

declare write_loop.simps [simp del]

text \<open>
  The truncation that follows the copy loop, entered when the size of the file is
  below the size it had when the call began.  The results of
  \<^verbatim>\<open>write_cluster_fat_entry\<close> and \<^verbatim>\<open>release_cluster_chain\<close> are dropped there.
\<close>

definition ceil_clusters :: "fat32_state \<Rightarrow> u32 \<Rightarrow> u32" where
  "ceil_clusters st n = (n + bytes_per_cluster st - 1) div bytes_per_cluster st"

definition truncate_chain ::
  "fat32_state \<Rightarrow> fat32_file_t \<Rightarrow> u32 \<Rightarrow> (fat32_state \<times> fat32_file_t) option" where
  "truncate_chain st file old_file_size =
     (if file_size file < old_file_size then
        let needed_clusters = (if file_size file = 0 then 0 else ceil_clusters st (file_size file));
            current_clusters = (if old_file_size = 0 then 0 else ceil_clusters st old_file_size)
        in if needed_clusters < current_clusters \<and> start_cluster file \<ge> 2 then
             if needed_clusters > 0 then
               (case seek_to_cluster st (start_cluster file) (needed_clusters - 1) of
                  Inl e \<Rightarrow> Some (st, file)
                | Inr last_cluster_to_keep \<Rightarrow>
                    (case read_cluster_fat_entry st last_cluster_to_keep of
                       Inl e \<Rightarrow> Some (st, file)
                     | Inr first_cluster_to_free \<Rightarrow>
                         let st1 = (case write_cluster_fat_entry st last_cluster_to_keep
                                           FAT32_FAT_ENTRY_EOC of
                                      Inl e \<Rightarrow> st | Inr s \<Rightarrow> s)
                         in map_option (\<lambda>(e, st2). (st2, file))
                              (release_cluster_chain st1 first_cluster_to_free)))
             else
               map_option (\<lambda>(e, st2). (st2, file\<lparr>start_cluster := 0\<rparr>))
                 (release_cluster_chain st (start_cluster file))
           else Some (st, file)
      else Some (st, file))"

text \<open>
  \<open>write_finish\<close> is the end of \<^verbatim>\<open>fat32_write\<close>, after the copy loop: the
  position and size of the handle, the count reported through \<^verbatim>\<open>bytes_written\<close>,
  the truncation, and the size field (offset 28) of the directory record.
  \<open>fat32_write\<close> is the whole function; the handle, the buffer and
  \<^verbatim>\<open>bytes_written\<close> are pointers, \<open>None\<close> when null.
\<close>

definition write_finish ::
  "fat32_state \<Rightarrow> fat32_file_t \<Rightarrow> u32 \<Rightarrow> u32 \<Rightarrow> u32 \<Rightarrow> u32 option \<Rightarrow>
     (fat32_error_t \<times> fat32_state \<times> fat32_file_t option \<times> u32 option) option" where
  "write_finish st file pos_in_file total_written old_file_size bytes_written =
     (let f1 = file\<lparr>position := pos_in_file\<rparr>;
          f2 = (if position f1 > file_size f1 then f1\<lparr>file_size := position f1\<rparr> else f1);
          bytes_written1 = map_option (\<lambda>_. total_written) bytes_written
      in (case truncate_chain st f2 old_file_size of
            None \<Rightarrow> None
          | Some (st1, f3) \<Rightarrow>
              if dir_entry_sector f3 \<noteq> 0 \<and> dir_entry_offset f3 < FAT32_SECTOR_SIZE then
                (case read_sector st1 (dir_entry_sector f3) of
                   Inl e \<Rightarrow> Some (e, st1, Some f3, bytes_written1)
                 | Inr buf \<Rightarrow>
                     (case write_sector st1 (dir_entry_sector f3)
                             (put_le32 buf (unat (dir_entry_offset f3) + 28) (file_size f3)) of
                        Inl e \<Rightarrow> Some (e, st1, Some f3, bytes_written1)
                      | Inr st2 \<Rightarrow> Some (FAT32_OK, st2, Some f3, bytes_written1)))
              else Some (FAT32_OK, st1, Some f3, bytes_written1)))"

definition fat32_write ::
  "fat32_state \<Rightarrow> fat32_file_t option \<Rightarrow> (nat \<Rightarrow> u8) option \<Rightarrow> u32 \<Rightarrow> u32 option \<Rightarrow>
     (fat32_error_t \<times> fat32_state \<times> fat32_file_t option \<times> u32 option) option" where
  "fat32_write st file buffer sz bytes_written =
     (case (file, buffer) of
        (Some f, Some src) \<Rightarrow>
          if \<not> is_open f then Some (FAT32_ERROR_INVALID_PARAMETER, st, file, bytes_written)
          else if attributes f AND FAT32_ATTR_DIRECTORY \<noteq> 0
          then Some (FAT32_ERROR_NOT_A_FILE, st, file, bytes_written)
          else (case fat32_is_ready st of (ready, st1) \<Rightarrow>
            if \<not> ready then Some (mount_status st1, st1, file, bytes_written)
            else
              let bytes_written0 = map_option (\<lambda>_. 0) bytes_written;
                  old_file_size = file_size f
              in (case position_loop st1 (start_cluster f)
                         (unat (position f div bytes_per_cluster st1)) of
                    Inl (e, st2) \<Rightarrow> Some (e, st2, file, bytes_written0)
                  | Inr (st2, cluster) \<Rightarrow>
                      let f1 = f\<lparr>current_cluster := cluster\<rparr>;
                          end_pos = position f1 + sz;
                          needed_clusters = ceil_clusters st2 end_pos;
                          current_clusters =
                            (if file_size f1 = 0 then 1 else ceil_clusters st2 (file_size f1))
                      in (case (if current_clusters > 0
                                then find_last_cluster st2 (start_cluster f1) current_clusters
                                else Inr (start_cluster f1)) of
                            Inl e \<Rightarrow> Some (e, st2, Some f1, bytes_written0)
                          | Inr last_cluster \<Rightarrow>
                              (case grow_loop st2 f1 current_clusters needed_clusters
                                      current_clusters last_cluster of
                                 Inl (e, st3, f2) \<Rightarrow> Some (e, st3, Some f2, bytes_written0)
                               | Inr (st3, f2, last_cluster') \<Rightarrow>
                                   (case seek_to_cluster st3 (start_cluster f2)
                                           (position f2 div bytes_per_cluster st3) of
                                      Inl e \<Rightarrow> Some (e, st3, Some f2, bytes_written0)
                                    | Inr cluster' \<Rightarrow>
                                        (case write_loop st3 (f2\<lparr>current_cluster := cluster'\<rparr>)
                                                src sz cluster' (position f2) 0 of
                                           Inl (e, st4, f4) \<Rightarrow>
                                             Some (e, st4, Some f4, bytes_written0)
                                         | Inr (st4, f4, pos_in_file, total_written) \<Rightarrow>
                                             write_finish st4 f4 pos_in_file total_written
                                               old_file_size bytes_written))))))
      | _ \<Rightarrow> Some (FAT32_ERROR_INVALID_PARAMETER, st, file, bytes_written))"


text \<open>A state is reliable when no block of its card fails to read or write.\<close>

definition reliable :: "fat32_state \<Rightarrow> bool" where
  "reliable st \<longleftrightarrow>
     sd_read_fails (card st) = (\<lambda>_. False) \<and> sd_write_fails (card st) = (\<lambda>_. False)"

section \<open>Cluster chains\<close>

text \<open>
  The vocabulary in which the chains of files are described.  A cluster is valid
  when it is one of the volume's data clusters.  \<open>cluster_chain st c k\<close> says that
  the cluster_chain that starts at cluster \<open>c\<close> has exactly \<open>k\<close> clusters, all valid, the
  first \<open>k - 1\<close> linked to their successors and the last one holding an
  end-of-cluster_chain marker; no cluster_chain has 0 clusters.  \<open>clusters_for st n\<close> is the number
  of clusters that hold \<open>n\<close> bytes, \<open>n\<close> over the cluster size rounded up, with
  one cluster for no bytes.
\<close>

definition valid_cluster :: "fat32_state \<Rightarrow> u32 \<Rightarrow> bool" where
  "valid_cluster st c \<longleftrightarrow> 2 \<le> c \<and> c < cluster_count st + 2"

fun cluster_chain :: "fat32_state \<Rightarrow> u32 \<Rightarrow> nat \<Rightarrow> bool" where
  "cluster_chain st c 0 = False"
| "cluster_chain st c (Suc k) =
     (valid_cluster st c \<and>
      (case read_cluster_fat_entry st c of
         Inl e \<Rightarrow> False
       | Inr v \<Rightarrow> if k = 0 then v \<ge> FAT32_FAT_ENTRY_EOC
                  else v < FAT32_FAT_ENTRY_EOC \<and> cluster_chain st v k))"

definition clusters_for :: "fat32_state \<Rightarrow> u32 \<Rightarrow> nat" where
  "clusters_for st n =
     (if n = 0 then 1
      else (unat n + unat (bytes_per_cluster st) - 1) div unat (bytes_per_cluster st))"

text \<open>
  The layout that the driver relies on: clusters of at least one sector, the
  cached cluster size agreeing with the boot sector, cluster numbers below the
  end-of-cluster_chain markers, the FSInfo sector inside the reserved area, the FAT
  entries of all clusters before the data region, and the data region within 32-bit
  sector numbers.
\<close>

definition geometry_ok :: "fat32_state \<Rightarrow> bool" where
  "geometry_ok st \<longleftrightarrow>
     sectors_per_cluster (boot_sector st) \<noteq> 0 \<and>
     bytes_per_cluster st = ucast (sectors_per_cluster (boot_sector st)) * FAT32_SECTOR_SIZE \<and>
     unat (cluster_count st) + 2 \<le> 0x0FFFFFF8 \<and>
     unat (fat32_info (boot_sector st)) < unat (reserved_sectors (boot_sector st)) \<and>
     unat (reserved_sectors (boot_sector st)) + (unat (cluster_count st) + 1) div 128
       < unat (first_data_sector st) \<and>
     unat (first_data_sector st) +
       unat (cluster_count st) * unat (sectors_per_cluster (boot_sector st)) \<le> 2 ^ 32"

text \<open>
  Two states are of the same volume when they agree on its geometry, and have the
  same FAT when they also agree on the entry of every valid cluster.
\<close>

definition same_volume :: "fat32_state \<Rightarrow> fat32_state \<Rightarrow> bool" where
  "same_volume st st' \<longleftrightarrow>
     boot_sector st' = boot_sector st \<and> cluster_count st' = cluster_count st \<and>
     bytes_per_cluster st' = bytes_per_cluster st \<and>
     first_data_sector st' = first_data_sector st \<and>
     volume_start_block st' = volume_start_block st"

definition same_fat :: "fat32_state \<Rightarrow> fat32_state \<Rightarrow> bool" where
  "same_fat st st' \<longleftrightarrow>
     same_volume st st' \<and>
     (\<forall>c. valid_cluster st c \<longrightarrow> read_cluster_fat_entry st' c = read_cluster_fat_entry st c)"




section \<open>Example volumes\<close>

text \<open>
  Concrete cards on which the theorems below are evaluated.  \<open>initial_state\<close>
  is the driver before its first mount: C's static initialisation, with
  \<^verbatim>\<open>mount_status = FAT32_OK\<close>.
\<close>

definition stored_fat_entry :: "fat32_state \<Rightarrow> u32 \<Rightarrow> u32" where
  "stored_fat_entry st cluster =
     le32 (sd_blocks (card st) (volume_start_block st + fat_sector st cluster))
       (entry_offset cluster)"

definition zero_sector :: sector where
  "zero_sector = (\<lambda>_. 0)"

definition zero_boot_sector :: fat32_boot_sector_t where
  "zero_boot_sector =
     \<lparr>bytes_per_sector = 0, sectors_per_cluster = 0, reserved_sectors = 0, num_fats = 0,
      fat_size_16 = 0, total_sectors_32 = 0, fat_size_32 = 0, root_cluster = 0,
      fat32_info = 0\<rparr>"

definition initial_state :: "sd_card \<Rightarrow> fat32_state" where
  "initial_state c =
     \<lparr>card = c, fat32_mounted = False, mount_status = FAT32_OK,
      boot_sector = zero_boot_sector, fsinfo = zero_sector, volume_start_block = 0,
      first_data_sector = 0, data_region_sectors = 0, cluster_count = 0,
      bytes_per_cluster = 0, current_dir_cluster = 0\<rparr>"

definition card_of :: "(u32 \<Rightarrow> sector) \<Rightarrow> sd_card" where
  "card_of blocks =
     \<lparr>sd_present = True, sd_init_result = FAT32_OK, sd_blocks = blocks,
      sd_read_fails = (\<lambda>_. False), sd_write_fails = (\<lambda>_. False)\<rparr>"

text \<open>
  The boot sector of a 64 MiB FAT32 volume: 512 bytes per sector, 1 sector per
  cluster, 32 reserved sectors, 2 FATs of 1009 sectors, 131072 sectors in all, root
  directory at cluster 2, FSInfo at sector 1.
\<close>

definition boot_fat32 :: sector where
  "boot_fat32 =
     zero_sector(0 := 0xEB, 11 := 0x00, 12 := 0x02, 13 := 0x01, 14 := 0x20, 16 := 0x02,
       32 := 0x00, 33 := 0x00, 34 := 0x02, 35 := 0x00,
       36 := 0xF1, 37 := 0x03, 44 := 0x02, 48 := 0x01, 510 := 0x55, 511 := 0xAA)"

definition bs_fat32 :: fat32_boot_sector_t where
  "bs_fat32 =
     \<lparr>bytes_per_sector = 512, sectors_per_cluster = 1, reserved_sectors = 32, num_fats = 2,
      fat_size_16 = 0, total_sectors_32 = 131072, fat_size_32 = 1009, root_cluster = 2,
      fat32_info = 1\<rparr>"

text \<open>An FSInfo sector with its three signatures, 126976 free clusters, next free 3.\<close>

definition fsinfo_good :: sector where
  "fsinfo_good =
     zero_sector(0 := 0x52, 1 := 0x52, 2 := 0x61, 3 := 0x41,
       484 := 0x72, 485 := 0x72, 486 := 0x41, 487 := 0x61,
       488 := 0x00, 489 := 0xF0, 490 := 0x01, 491 := 0x00,
       492 := 0x03, 510 := 0x55, 511 := 0xAA)"

definition card_fat32 :: sd_card where
  "card_fat32 = card_of ((\<lambda>_. zero_sector)(0 := boot_fat32, 1 := fsinfo_good))"

text \<open>The same volume with a blank sector where the FSInfo sector should be.\<close>

definition card_bad_fsinfo :: sd_card where
  "card_bad_fsinfo = card_of ((\<lambda>_. zero_sector)(0 := boot_fat32))"

text \<open>
  The same volume behind a partition table: block 0 holds one entry of type
  \<open>0x0C\<close> starting at block 2048, and the FSInfo sector at block 2049 is blank.
\<close>

definition mbr_sector :: sector where
  "mbr_sector =
     zero_sector(446 := 0x80, 450 := 0x0C, 454 := 0x00, 455 := 0x08, 510 := 0x55, 511 := 0xAA)"

definition card_mbr_bad_fsinfo :: sd_card where
  "card_mbr_bad_fsinfo = card_of ((\<lambda>_. zero_sector)(0 := mbr_sector, 2048 := boot_fat32))"

text \<open>
  A FAT32 boot sector of a volume too small for FAT32: 32768 sectors in all, 2 FATs
  of 256 sectors.
\<close>

definition boot_small :: sector where
  "boot_small =
     zero_sector(0 := 0xEB, 11 := 0x00, 12 := 0x02, 13 := 0x01, 14 := 0x20, 16 := 0x02,
       32 := 0x00, 33 := 0x80, 34 := 0x00, 35 := 0x00,
       36 := 0x00, 37 := 0x01, 44 := 0x02, 48 := 0x01, 510 := 0x55, 511 := 0xAA)"

definition card_small :: sd_card where
  "card_small = card_of ((\<lambda>_. zero_sector)(0 := boot_small, 1 := fsinfo_good))"

text \<open>
  The boot sector of a 64 MiB FAT16 volume: 4 sectors per cluster, 1 reserved sector,
  2 FATs of 128 sectors (the 16-bit FAT size), 512 root entries; the bytes from 36
  on hold FAT16's drive number and boot signature.
\<close>

definition boot_fat16 :: sector where
  "boot_fat16 =
     zero_sector(0 := 0xEB, 11 := 0x00, 12 := 0x02, 13 := 0x04, 14 := 0x01, 16 := 0x02,
       18 := 0x02, 22 := 0x80, 32 := 0x00, 33 := 0x00, 34 := 0x02, 35 := 0x00,
       36 := 0x80, 38 := 0x29, 510 := 0x55, 511 := 0xAA)"

definition card_fat16 :: sd_card where
  "card_fat16 = card_of ((\<lambda>_. zero_sector)(0 := boot_fat16))"

definition bs_small :: fat32_boot_sector_t where
  "bs_small =
     \<lparr>bytes_per_sector = 512, sectors_per_cluster = 1, reserved_sectors = 32, num_fats = 2,
      fat_size_16 = 0, total_sectors_32 = 32768, fat_size_32 = 256, root_cluster = 2,
      fat32_info = 1\<rparr>"

text \<open>
  The boot sector of a FAT32 volume of 67574 sectors: 1 sector per cluster, 32
  reserved sectors, 2 FATs of 1009 sectors.  The data region is what follows the
  reserved sectors and the FATs: it starts at sector 2050 and has 65524 sectors.
\<close>

definition boot_tight :: sector where
  "boot_tight =
     zero_sector(0 := 0xEB, 11 := 0x00, 12 := 0x02, 13 := 0x01, 14 := 0x20, 16 := 0x02,
       32 := 0xF6, 33 := 0x07, 34 := 0x01, 35 := 0x00,
       36 := 0xF1, 37 := 0x03, 44 := 0x02, 48 := 0x01, 510 := 0x55, 511 := 0xAA)"

definition bs_tight :: fat32_boot_sector_t where
  "bs_tight =
     \<lparr>bytes_per_sector = 512, sectors_per_cluster = 1, reserved_sectors = 32, num_fats = 2,
      fat_size_16 = 0, total_sectors_32 = 67574, fat_size_32 = 1009, root_cluster = 2,
      fat32_info = 1\<rparr>"

definition card_tight :: sd_card where
  "card_tight = card_of ((\<lambda>_. zero_sector)(0 := boot_tight, 1 := fsinfo_good))"

text \<open>The driver state once \<open>boot_fat32\<close> at block 0 of a card is mounted.\<close>

definition volume_state :: "sd_card \<Rightarrow> sector \<Rightarrow> fat32_state" where
  "volume_state c fs =
     \<lparr>card = c, fat32_mounted = True, mount_status = FAT32_OK,
      boot_sector = bs_fat32, fsinfo = fs, volume_start_block = 0,
      first_data_sector = 2050, data_region_sectors = 129054, cluster_count = 129054,
      bytes_per_cluster = 512, current_dir_cluster = 2\<rparr>"

text \<open>
  A sector of the FAT in which the entry of cluster 5 (bytes 20 to 23) is
  \<open>0xA0000007\<close>, with reserved top bits set.
\<close>

definition fat_sector_a :: sector where
  "fat_sector_a = zero_sector(20 := 0x07, 23 := 0xA0)"

definition card_fat_a :: sd_card where
  "card_fat_a =
     card_of ((\<lambda>_. zero_sector)(0 := boot_fat32, 1 := fsinfo_good, 32 := fat_sector_a))"

definition open_handle :: fat32_file_t where
  "open_handle =
     \<lparr>is_open = True, last_entry_read = False, attributes = 0x20, start_cluster = 5,
      current_cluster = 5, file_size = 700, position = 100, dir_entry_sector = 2050,
      dir_entry_offset = 64\<rparr>"

text \<open>The FSInfo sector with the free count unknown (\<open>0xFFFFFFFF\<close>), next free 3.\<close>

definition fsinfo_unknown :: sector where
  "fsinfo_unknown = fsinfo_good(488 := 0xFF, 489 := 0xFF, 490 := 0xFF, 491 := 0xFF)"

text \<open>
  The first sector of a FAT: the two reserved entries, the root directory in
  clusters 2 and 3, and a file of one cluster, 5, whose entry is an end-of-chain
  marker.
\<close>

definition fat_sector_b :: sector where
  "fat_sector_b =
     zero_sector(0 := 0xF8, 1 := 0xFF, 2 := 0xFF, 3 := 0x0F,
       4 := 0xFF, 5 := 0xFF, 6 := 0xFF, 7 := 0x0F,
       8 := 0x03, 12 := 0xFF, 13 := 0xFF, 14 := 0xFF, 15 := 0x0F,
       20 := 0xFF, 21 := 0xFF, 22 := 0xFF, 23 := 0x0F)"

text \<open>
  The volume with that FAT and, in cluster 5 (sector 2053), a file that holds the
  ten digits.  \<open>handle_mid\<close> is a handle of that file, open at position 4.
\<close>

definition data_sector :: sector where
  "data_sector =
     zero_sector(0 := 0x30, 1 := 0x31, 2 := 0x32, 3 := 0x33, 4 := 0x34, 5 := 0x35,
       6 := 0x36, 7 := 0x37, 8 := 0x38, 9 := 0x39)"

definition card_file :: "sector \<Rightarrow> sd_card" where
  "card_file fs =
     card_of ((\<lambda>_. zero_sector)(0 := boot_fat32, 1 := fs, 32 := fat_sector_b,
       2053 := data_sector))"


text \<open>
  Three directory sectors.  The last slot of \<open>dir_sector_tail\<close> (offset 480) is
  a long-name fragment, with sequence byte \<open>0x41\<close> and the long-name marker in its
  attribute byte; the short-name record it belongs to is the first slot of the
  next sector, \<open>dir_sector_head\<close>.  In \<open>dir_sector_both\<close> a fragment at offset
  0 is followed by its short-name record at offset 32.
\<close>

definition dir_sector_tail :: sector where
  "dir_sector_tail = zero_sector(0 := 0x2E, 11 := 0x10, 480 := 0x41, 491 := 0x0F)"

definition dir_sector_head :: sector where
  "dir_sector_head =
     zero_sector(0 := 0x4C, 1 := 0x4F, 2 := 0x4E, 3 := 0x47, 4 := 0x46, 5 := 0x49,
       6 := 0x7E, 7 := 0x31, 8 := 0x54, 9 := 0x58, 10 := 0x54, 11 := 0x20, 26 := 0x05)"

definition dir_sector_both :: sector where
  "dir_sector_both =
     zero_sector(0 := 0x41, 11 := 0x0F,
       32 := 0x4C, 33 := 0x4F, 34 := 0x4E, 35 := 0x47, 36 := 0x46, 37 := 0x49,
       38 := 0x7E, 39 := 0x31, 40 := 0x54, 41 := 0x58, 42 := 0x54, 43 := 0x20, 58 := 0x05)"

definition card_dir :: sd_card where
  "card_dir =
     card_of ((\<lambda>_. zero_sector)(0 := boot_fat32, 1 := fsinfo_good, 32 := fat_sector_b,
       2050 := dir_sector_tail, 2051 := dir_sector_head, 2052 := dir_sector_both))"

definition entry_at :: "u32 \<Rightarrow> u32 \<Rightarrow> fat32_entry_t" where
  "entry_at s off =
     \<lparr>entry_filename = ''longfilename.txt'', entry_size = 0, entry_date = 0, entry_time = 0,
      entry_start_cluster = 5, entry_attr = 0x20, entry_sector = s,
      entry_offset_in_sector = off\<rparr>"






definition handle_full :: fat32_file_t where
  "handle_full =
     \<lparr>is_open = True, last_entry_read = False, attributes = 0x20, start_cluster = 5,
      current_cluster = 5, file_size = 512, position = 512, dir_entry_sector = 2050,
      dir_entry_offset = 64\<rparr>"

section \<open>Little-endian fields\<close>

lemma le32_put_le32: "le32 (put_le32 b off v) off = v"
  unfolding le32_def put_le32_def fun_upd_apply
  apply simp
proof (rule bit_word_eqI)
  fix n :: nat
  assume "n < LENGTH(32)"
  then have n: "n < 32" by simp
  have c: "n < 8 \<or> (8 \<le> n \<and> n < 16) \<or> (16 \<le> n \<and> n < 24) \<or> 24 \<le> n"
    by arith
  from n c show "bit (ucast ((ucast v)::u8) OR push_bit 8 (ucast ((ucast (drop_bit 8 v))::u8)) OR
        push_bit 16 (ucast ((ucast (drop_bit 16 v))::u8)) OR
        push_bit 24 (ucast ((ucast (drop_bit 24 v))::u8)) :: u32) n = bit v n"
    by (auto simp add: bit_simps)
qed

lemma put_le32_other:
  "i < off \<or> off + 3 < i \<Longrightarrow> put_le32 b off v i = b i"
  by (auto simp add: put_le32_def)

section \<open>Closing a handle\<close>

text \<open>
  C10.  \<^verbatim>\<open>fat32_close\<close> returns success on every input.  A null handle and a
  handle that is not open are left as they are; an open handle has every field
  zeroed (\<open>is_open\<close> false, position, size, clusters and the cached location
  of the directory entry all 0).  The driver state, the card in it included, is
  unchanged.
\<close>

theorem fat32_close_always_ok:
  "fst (fat32_close st file) = FAT32_OK \<and>
   fst (snd (fat32_close st file)) = st \<and>
   (file = None \<longrightarrow> snd (snd (fat32_close st file)) = None) \<and>
   (\<forall>f. file = Some f \<and> \<not> is_open f \<longrightarrow> snd (snd (fat32_close st file)) = Some f) \<and>
   (\<forall>f. file = Some f \<and> is_open f \<longrightarrow>
      (\<exists>f'. snd (snd (fat32_close st file)) = Some f' \<and>
         \<not> is_open f' \<and> \<not> last_entry_read f' \<and> attributes f' = 0 \<and>
         start_cluster f' = 0 \<and> current_cluster f' = 0 \<and> file_size f' = 0 \<and>
         position f' = 0 \<and> dir_entry_sector f' = 0 \<and> dir_entry_offset f' = 0))"
  by (auto simp add: fat32_close_def zero_file_def split: option.splits)


lemma close_witness_aux: "is_open open_handle"
  by (simp add: open_handle_def)

theorem fat32_close_always_ok_witness:
  "fat32_close (volume_state card_fat32 fsinfo_good) None
     = (FAT32_OK, volume_state card_fat32 fsinfo_good, None) \<and>
   fat32_close (volume_state card_fat32 fsinfo_good) (Some zero_file)
     = (FAT32_OK, volume_state card_fat32 fsinfo_good, Some zero_file) \<and>
   is_open open_handle \<and>
   fat32_close (volume_state card_fat32 fsinfo_good) (Some open_handle)
     = (FAT32_OK, volume_state card_fat32 fsinfo_good, Some zero_file)"
  using fat32_close_always_ok [of "volume_state card_fat32 fsinfo_good" None]
    fat32_close_always_ok [of "volume_state card_fat32 fsinfo_good" "Some zero_file"]
    fat32_close_always_ok [of "volume_state card_fat32 fsinfo_good" "Some open_handle"]
    close_witness_aux
  by (simp add: fat32_close_def zero_file_def)

section \<open>Reading and writing FAT entries\<close>

lemma mask_keep_top:
  "((x AND 0xF0000000) OR (v AND 0x0FFFFFFF)) AND (0xF0000000::u32) = x AND 0xF0000000"
  by (simp add: bit.conj_disj_distrib2 and.assoc)

lemma mask_take_low:
  "((x AND 0xF0000000) OR (v AND 0x0FFFFFFF)) AND (0x0FFFFFFF::u32) = v AND 0x0FFFFFFF"
  by (simp add: bit.conj_disj_distrib2 and.assoc)

lemma read_cluster_fat_entry_eq:
  "2 \<le> cluster \<Longrightarrow>
   read_cluster_fat_entry st cluster =
     (if sd_read_fails (card st) (volume_start_block st + fat_sector st cluster)
      then Inl FAT32_ERROR_READ_FAILED
      else Inr (stored_fat_entry st cluster AND 0x0FFFFFFF))"
  by (simp add: read_cluster_fat_entry_def read_sector_def sd_read_block_def
      stored_fat_entry_def not_less [symmetric])

lemma write_cluster_fat_entry_eq:
  "2 \<le> cluster \<Longrightarrow>
   write_cluster_fat_entry st cluster v =
     (let blk = volume_start_block st + fat_sector st cluster in
      if sd_read_fails (card st) blk then Inl FAT32_ERROR_READ_FAILED
      else if sd_write_fails (card st) blk then Inl FAT32_ERROR_WRITE_FAILED
      else Inr (st\<lparr>card := (card st)\<lparr>sd_blocks := (sd_blocks (card st))
             (blk := put_le32 (sd_blocks (card st) blk) (entry_offset cluster)
                ((stored_fat_entry st cluster AND 0xF0000000) OR (v AND 0x0FFFFFFF)))\<rparr>\<rparr>))"
  by (simp add: write_cluster_fat_entry_def read_sector_def sd_read_block_def
      write_sector_def sd_write_block_def stored_fat_entry_def Let_def not_less [symmetric])

text \<open>
  C9.  Cluster indices below 2 are rejected with invalid-parameter by
  \<^verbatim>\<open>read_cluster_fat_entry\<close> and by \<^verbatim>\<open>write_cluster_fat_entry\<close>.  For a
  cluster index of at least 2, with \<open>stored_fat_entry\<close> the 32-bit value the card
  holds at the entry's place: a read that the transport serves returns the stored
  value with its top 4 bits masked off; a write that the transport serves leaves
  the top 4 stored bits as they were, makes the low 28 stored bits those of the
  value written, and changes no other byte of the card and nothing else of the
  driver state.
\<close>

theorem fat_entry_read_write_masks:
  "(cluster < 2 \<longrightarrow>
      read_cluster_fat_entry st cluster = Inl FAT32_ERROR_INVALID_PARAMETER \<and>
      write_cluster_fat_entry st cluster v = Inl FAT32_ERROR_INVALID_PARAMETER) \<and>
   (2 \<le> cluster \<and> \<not> sd_read_fails (card st) (volume_start_block st + fat_sector st cluster) \<longrightarrow>
      read_cluster_fat_entry st cluster = Inr (stored_fat_entry st cluster AND 0x0FFFFFFF)) \<and>
   (2 \<le> cluster \<and> write_cluster_fat_entry st cluster v = Inr st' \<longrightarrow>
      stored_fat_entry st' cluster AND 0xF0000000 = stored_fat_entry st cluster AND 0xF0000000 \<and>
      stored_fat_entry st' cluster AND 0x0FFFFFFF = v AND 0x0FFFFFFF \<and>
      (\<forall>b i. b \<noteq> volume_start_block st + fat_sector st cluster \<or>
             i < entry_offset cluster \<or> entry_offset cluster + 3 < i \<longrightarrow>
             sd_blocks (card st') b i = sd_blocks (card st) b i) \<and>
      st' = st\<lparr>card := (card st)\<lparr>sd_blocks := sd_blocks (card st')\<rparr>\<rparr>)"
proof (intro conjI impI)
  assume "cluster < 2"
  then show "read_cluster_fat_entry st cluster = Inl FAT32_ERROR_INVALID_PARAMETER"
    and "write_cluster_fat_entry st cluster v = Inl FAT32_ERROR_INVALID_PARAMETER"
    by (simp_all add: read_cluster_fat_entry_def write_cluster_fat_entry_def)
next
  assume "2 \<le> cluster \<and> \<not> sd_read_fails (card st) (volume_start_block st + fat_sector st cluster)"
  then show "read_cluster_fat_entry st cluster = Inr (stored_fat_entry st cluster AND 0x0FFFFFFF)"
    by (simp add: read_cluster_fat_entry_eq)
next
  assume a: "2 \<le> cluster \<and> write_cluster_fat_entry st cluster v = Inr st'"
  define blk where "blk = volume_start_block st + fat_sector st cluster"
  define new where
    "new = (stored_fat_entry st cluster AND 0xF0000000) OR (v AND 0x0FFFFFFF)"
  from a have c2: "2 \<le> cluster" and w: "write_cluster_fat_entry st cluster v = Inr st'"
    by simp_all
  from w have st': "st' = st\<lparr>card := (card st)\<lparr>sd_blocks := (sd_blocks (card st))
       (blk := put_le32 (sd_blocks (card st) blk) (entry_offset cluster) new)\<rparr>\<rparr>"
    by (simp add: write_cluster_fat_entry_eq [OF c2] Let_def blk_def new_def split: if_splits)
  have same: "volume_start_block st' + fat_sector st' cluster = blk"
    by (simp add: st' blk_def fat_sector_def)
  have stored: "stored_fat_entry st' cluster = new"
    unfolding stored_fat_entry_def same by (simp add: st' le32_put_le32)
  show "stored_fat_entry st' cluster AND 0xF0000000 = stored_fat_entry st cluster AND 0xF0000000"
    by (simp add: stored new_def mask_keep_top)
  show "stored_fat_entry st' cluster AND 0x0FFFFFFF = v AND 0x0FFFFFFF"
    by (simp add: stored new_def mask_take_low)
  show "\<forall>b i. b \<noteq> volume_start_block st + fat_sector st cluster \<or>
             i < entry_offset cluster \<or> entry_offset cluster + 3 < i \<longrightarrow>
             sd_blocks (card st') b i = sd_blocks (card st) b i"
    by (auto simp add: st' blk_def put_le32_other)
  show "st' = st\<lparr>card := (card st)\<lparr>sd_blocks := sd_blocks (card st')\<rparr>\<rparr>"
    by (simp add: st')
qed

lemma fat_a_facts:
  "volume_start_block (volume_state card_fat_a fsinfo_good) +
     fat_sector (volume_state card_fat_a fsinfo_good) 5 = 32"
  "entry_offset 5 = 20"
  "stored_fat_entry (volume_state card_fat_a fsinfo_good) 5 = 0xA0000007"
  "\<not> sd_read_fails (card (volume_state card_fat_a fsinfo_good)) 32"
  "\<not> sd_write_fails (card (volume_state card_fat_a fsinfo_good)) 32"
  by (simp_all add: stored_fat_entry_def volume_state_def fat_sector_def bs_fat32_def
      entry_offset_def card_fat_a_def card_of_def fat_sector_a_def zero_sector_def le32_def)

theorem fat_entry_read_write_masks_witness:
  "read_cluster_fat_entry (volume_state card_fat_a fsinfo_good) 1 = Inl FAT32_ERROR_INVALID_PARAMETER \<and>
   write_cluster_fat_entry (volume_state card_fat_a fsinfo_good) 1 0x0FFFFFF8
     = Inl FAT32_ERROR_INVALID_PARAMETER \<and>
   stored_fat_entry (volume_state card_fat_a fsinfo_good) 5 = 0xA0000007 \<and>
   read_cluster_fat_entry (volume_state card_fat_a fsinfo_good) 5 = Inr 0x00000007 \<and>
   (\<exists>st'. write_cluster_fat_entry (volume_state card_fat_a fsinfo_good) 5 0x1FFFFFF8 = Inr st' \<and>
      stored_fat_entry st' 5 AND 0xF0000000 = 0xA0000000 \<and>
      stored_fat_entry st' 5 AND 0x0FFFFFFF = 0x0FFFFFF8)"
proof -
  let ?st = "volume_state card_fat_a fsinfo_good"
  obtain st' where w: "write_cluster_fat_entry ?st 5 0x1FFFFFF8 = Inr st'"
    by (simp add: write_cluster_fat_entry_eq fat_a_facts Let_def)
  from fat_entry_read_write_masks [of 1 ?st "0x0FFFFFF8" ?st]
    fat_entry_read_write_masks [of 5 ?st "0x1FFFFFF8" st'] w
  show ?thesis
    by (simp add: fat_a_facts)
qed

section \<open>Mounting a volume\<close>

lemma if_two:
  "x = a \<or> x = b \<Longrightarrow> y = a \<or> y = b \<Longrightarrow>
   (if c then x else y) = a \<or> (if c then x else y) = b"
  by (cases c) simp_all

lemma is_valid_fat32_boot_sector_cases:
  "is_valid_fat32_boot_sector bs = FAT32_OK \<or>
   is_valid_fat32_boot_sector bs = FAT32_ERROR_INVALID_FORMAT"
  unfolding is_valid_fat32_boot_sector_def Let_def
  by (intro if_two disjI1 disjI2 refl)

lemma locate_boot_sector_keeps:
  "locate_boot_sector st = Inr (st1, buf) \<Longrightarrow>
   card st1 = card st \<and> fat32_mounted st1 = fat32_mounted st"
  unfolding locate_boot_sector_def Let_def
  by (auto split: sum.splits option.splits if_splits)

lemma fat32_mount_unfold:
  "sd_card_present (card st) \<Longrightarrow> \<not> fat32_mounted st \<Longrightarrow>
   sd_card_init (card st) = FAT32_OK \<Longrightarrow> locate_boot_sector st = Inr (st1, buf) \<Longrightarrow>
   fat32_mount st = mount_volume st1 buf"
  by (simp add: fat32_mount_def)

lemma parse_boot_fat32: "parse_boot_sector boot_fat32 = bs_fat32"
  by (simp add: parse_boot_sector_def boot_fat32_def bs_fat32_def le32_def le16_def zero_sector_def)

lemma valid_bs_fat32: "is_valid_fat32_boot_sector bs_fat32 = FAT32_OK"
  by (simp add: is_valid_fat32_boot_sector_def bs_fat32_def)

lemma boot_fat32_kind: "\<not> is_sector_mbr boot_fat32" "is_sector_boot_sector boot_fat32"
  by (simp_all add: is_sector_mbr_def is_sector_boot_sector_def boot_fat32_def zero_sector_def le16_def)

lemma mbr_sector_kind: "is_sector_mbr mbr_sector" "scan_partitions mbr_sector [0, 1, 2, 3] = Some 2048"
  by (simp_all add: is_sector_mbr_def mbr_sector_def zero_sector_def le32_def scan_partitions.simps)

lemma card_of_simps:
  "sd_card_present (card_of b)" "sd_card_init (card_of b) = FAT32_OK"
  "sd_read_block (card_of b) n = Inr (b n)"
  by (simp_all add: card_of_def sd_card_present_def sd_card_init_def sd_read_block_def)

lemma initial_state_simps:
  "card (initial_state c) = c" "\<not> fat32_mounted (initial_state c)"
  "volume_start_block (initial_state c) = 0"
  by (simp_all add: initial_state_def)

lemma read_initial:
  "sd_read_block (card (initial_state (card_of b))) n = Inr (b n)"
  "sd_read_block (card ((initial_state (card_of b))\<lparr>volume_start_block := v\<rparr>)) n = Inr (b n)"
  by (simp_all add: initial_state_simps card_of_simps)

lemma locate_bad_fsinfo:
  "locate_boot_sector (initial_state card_bad_fsinfo) =
     Inr (initial_state card_bad_fsinfo, boot_fat32)"
  unfolding card_bad_fsinfo_def
  apply (simp only: locate_boot_sector_def read_initial fun_upd_same sum.case boot_fat32_kind
      if_True if_False)
  apply (simp add: initial_state_def)
  done

lemma mbr_blocks:
  "((\<lambda>_. zero_sector)(0 := mbr_sector, 2048 := boot_fat32)) (0::u32) = mbr_sector"
  "((\<lambda>_. zero_sector)(0 := mbr_sector, 2048 := boot_fat32)) (2048::u32) = boot_fat32"
  by simp_all

lemma locate_mbr:
  "locate_boot_sector (initial_state card_mbr_bad_fsinfo) =
     Inr ((initial_state card_mbr_bad_fsinfo)\<lparr>volume_start_block := 2048\<rparr>, boot_fat32)"
  unfolding card_mbr_bad_fsinfo_def
  apply (simp only: locate_boot_sector_def read_initial mbr_blocks mbr_sector_kind sum.case
      option.case if_True Let_def)
  apply simp
  done

text \<open>
  C1, as amended.  When the card is present, the driver is not yet mounted, the
  card initialises, the boot sector passes every check of
  \<^verbatim>\<open>is_valid_fat32_boot_sector\<close>, the cluster count is at least 65525 and the
  FSInfo sector is read, but one of its three signatures is wrong, then
  \<^verbatim>\<open>fat32_mount\<close> fails with invalid-format, the mounted flag stays false, and
  the cached FSInfo (the free-count and next-free hints with it) holds the bytes
  read from the card, not the unknown sentinel.
\<close>

theorem mount_rejects_invalid_fsinfo:
  assumes "sd_card_present (card st)" and "\<not> fat32_mounted st"
    and "sd_card_init (card st) = FAT32_OK"
    and "locate_boot_sector st = Inr (st1, buf)"
    and "bs = parse_boot_sector buf"
    and "is_valid_fat32_boot_sector bs = FAT32_OK"
    and "65525 \<le> (total_sectors_32 bs - ucast (num_fats bs) * fat_size_32 bs)
           div ucast (sectors_per_cluster bs)"
    and "read_sector st1 (ucast (fat32_info bs)) = Inr fs"
    and "lead_sig fs \<noteq> 0x41615252 \<or> struc_sig fs \<noteq> 0x61417272 \<or> trail_sig fs \<noteq> 0xAA550000"
  shows "fst (fat32_mount st) = FAT32_ERROR_INVALID_FORMAT \<and>
         \<not> fat32_mounted (snd (fat32_mount st)) \<and>
         fsinfo (snd (fat32_mount st)) = fs"
proof -
  have m: "fat32_mount st = mount_volume st1 buf"
    using assms(1-4) by (rule fat32_mount_unfold)
  have k: "\<not> fat32_mounted st1"
    using locate_boot_sector_keeps [OF assms(4)] assms(2) by simp
  have r: "read_sector (st1\<lparr>boot_sector := bs,
       bytes_per_cluster := a, first_data_sector := b, data_region_sectors := c,
       cluster_count := d, current_dir_cluster := e\<rparr>) s = read_sector st1 s" for a b c d e s
    by (simp add: read_sector_def)
  have big: "\<not> (total_sectors_32 bs - ucast (num_fats bs) * fat_size_32 bs)
           div ucast (sectors_per_cluster bs) < 65525"
    using assms(7) by (simp only: not_less)
  show ?thesis
    using assms(6,8,9) big k unfolding m mount_volume_def assms(5) [symmetric]
    by (simp add: Let_def r)
qed


lemma sig_facts:
  "lead_sig zero_sector = 0" "free_count zero_sector = 0" "next_free zero_sector = 0"
  "lead_sig fsinfo_good = 0x41615252" "struc_sig fsinfo_good = 0x61417272"
  "trail_sig fsinfo_good = 0xAA550000"
  by (simp_all add: lead_sig_def struc_sig_def trail_sig_def free_count_def next_free_def
      le32_def zero_sector_def fsinfo_good_def)

lemma mount_volume_fat32:
  assumes "card st = card_of b" and "fs = b (volume_start_block st + 1)"
  shows "mount_volume st boot_fat32 =
     (if lead_sig fs \<noteq> 0x41615252 \<or> struc_sig fs \<noteq> 0x61417272 \<or> trail_sig fs \<noteq> 0xAA550000
      then (FAT32_ERROR_INVALID_FORMAT,
            st\<lparr>boot_sector := bs_fat32, bytes_per_cluster := 512, first_data_sector := 2050,
               data_region_sectors := 129054, cluster_count := 129054,
               current_dir_cluster := 2, fsinfo := fs\<rparr>)
      else (FAT32_OK,
            st\<lparr>boot_sector := bs_fat32, bytes_per_cluster := 512, first_data_sector := 2050,
               data_region_sectors := 129054, cluster_count := 129054,
               current_dir_cluster := 2, fsinfo := fs, fat32_mounted := True\<rparr>))"
proof -
  have g: "ucast (sectors_per_cluster bs_fat32) * FAT32_SECTOR_SIZE = 512"
    "ucast (reserved_sectors bs_fat32) + ucast (num_fats bs_fat32) * fat_size_32 bs_fat32 = 2050"
    "total_sectors_32 bs_fat32 - ucast (num_fats bs_fat32) * fat_size_32 bs_fat32 = 129054"
    "(129054::u32) div ucast (sectors_per_cluster bs_fat32) = 129054"
    "\<not> (129054::u32) < 65525"
    "root_cluster bs_fat32 = 2" "(ucast (fat32_info bs_fat32) :: u32) = 1"
    by (simp_all add: bs_fat32_def)
  show ?thesis
    unfolding mount_volume_def parse_boot_fat32 Let_def
    by (simp add: valid_bs_fat32 g read_sector_def assms card_of_simps)
qed

text \<open>
  C1 as stated fails: on \<open>card_bad_fsinfo\<close> the card is present, the boot sector
  is valid and the cluster count is 129054, the FSInfo sector is blank, and the
  mount returns invalid-format with the mounted flag false and both hints 0.
\<close>

theorem mount_invalid_fsinfo_counterexample:
  "sd_card_present (card (initial_state card_bad_fsinfo)) \<and>
   is_valid_fat32_boot_sector (parse_boot_sector (sd_blocks card_bad_fsinfo 0)) = FAT32_OK \<and>
   cluster_count (snd (fat32_mount (initial_state card_bad_fsinfo))) = 129054 \<and>
   lead_sig (sd_blocks card_bad_fsinfo 1) \<noteq> 0x41615252 \<and>
   fst (fat32_mount (initial_state card_bad_fsinfo)) = FAT32_ERROR_INVALID_FORMAT \<and>
   \<not> fat32_mounted (snd (fat32_mount (initial_state card_bad_fsinfo))) \<and>
   free_count (fsinfo (snd (fat32_mount (initial_state card_bad_fsinfo)))) = 0 \<and>
   next_free (fsinfo (snd (fat32_mount (initial_state card_bad_fsinfo)))) = 0"
proof -
  have b: "sd_blocks card_bad_fsinfo 0 = boot_fat32" "sd_blocks card_bad_fsinfo 1 = zero_sector"
    by (simp_all add: card_bad_fsinfo_def card_of_def)
  have c: "card (initial_state card_bad_fsinfo) = card_of ((\<lambda>_. zero_sector)(0 := boot_fat32))"
    by (simp add: initial_state_simps card_bad_fsinfo_def)
  have f: "zero_sector = ((\<lambda>_. zero_sector)(0 := boot_fat32))
             (volume_start_block (initial_state card_bad_fsinfo) + 1)"
    by (simp add: initial_state_simps)
  have m: "fat32_mount (initial_state card_bad_fsinfo) =
      mount_volume (initial_state card_bad_fsinfo) boot_fat32"
    by (rule fat32_mount_unfold)
       (simp_all add: initial_state_simps card_bad_fsinfo_def card_of_simps
          locate_bad_fsinfo [unfolded card_bad_fsinfo_def])
  show ?thesis
    unfolding m mount_volume_fat32 [OF c f] b
    by (simp add: sig_facts parse_boot_fat32 valid_bs_fat32 initial_state_simps
        card_bad_fsinfo_def card_of_simps)
qed

theorem mount_rejects_invalid_fsinfo_witness:
  "fst (fat32_mount (initial_state card_bad_fsinfo)) = FAT32_ERROR_INVALID_FORMAT \<and>
   \<not> fat32_mounted (snd (fat32_mount (initial_state card_bad_fsinfo))) \<and>
   fsinfo (snd (fat32_mount (initial_state card_bad_fsinfo))) = zero_sector"
proof (rule mount_rejects_invalid_fsinfo [where buf = boot_fat32 and bs = bs_fat32
      and ?st1.0 = "initial_state card_bad_fsinfo"])
  show "sd_card_present (card (initial_state card_bad_fsinfo))"
    and "\<not> fat32_mounted (initial_state card_bad_fsinfo)"
    and "sd_card_init (card (initial_state card_bad_fsinfo)) = FAT32_OK"
    by (simp_all add: initial_state_simps card_bad_fsinfo_def card_of_simps)
  show "locate_boot_sector (initial_state card_bad_fsinfo) =
      Inr (initial_state card_bad_fsinfo, boot_fat32)"
    by (rule locate_bad_fsinfo)
  show "bs_fat32 = parse_boot_sector boot_fat32"
    by (simp add: parse_boot_fat32)
  show "is_valid_fat32_boot_sector bs_fat32 = FAT32_OK"
    by (rule valid_bs_fat32)
  show "65525 \<le> (total_sectors_32 bs_fat32 - ucast (num_fats bs_fat32) * fat_size_32 bs_fat32)
           div ucast (sectors_per_cluster bs_fat32)"
    by (simp add: bs_fat32_def)
  show "read_sector (initial_state card_bad_fsinfo) (ucast (fat32_info bs_fat32)) = Inr zero_sector"
    by (simp add: read_sector_def initial_state_simps card_bad_fsinfo_def card_of_simps bs_fat32_def)
  show "lead_sig zero_sector \<noteq> 0x41615252 \<or> struc_sig zero_sector \<noteq> 0x61417272 \<or>
      trail_sig zero_sector \<noteq> 0xAA550000"
    by (simp add: sig_facts)
qed


lemma mount_volume_invalid:
  "is_valid_fat32_boot_sector (parse_boot_sector buf) \<noteq> FAT32_OK \<Longrightarrow>
   mount_volume st buf =
     (FAT32_ERROR_INVALID_FORMAT, st\<lparr>boot_sector := parse_boot_sector buf\<rparr>)"
  using is_valid_fat32_boot_sector_cases [of "parse_boot_sector buf"]
  by (simp add: mount_volume_def Let_def)

lemma mount_volume_valid:
  assumes "is_valid_fat32_boot_sector bs = FAT32_OK" and "bs = parse_boot_sector buf"
    and "cc = (total_sectors_32 bs - ucast (num_fats bs) * fat_size_32 bs)
           div ucast (sectors_per_cluster bs)"
    and "st5 = st\<lparr>boot_sector := bs,
           bytes_per_cluster := ucast (sectors_per_cluster bs) * FAT32_SECTOR_SIZE,
           first_data_sector := ucast (reserved_sectors bs) + ucast (num_fats bs) * fat_size_32 bs,
           data_region_sectors := total_sectors_32 bs - ucast (num_fats bs) * fat_size_32 bs,
           cluster_count := cc\<rparr>"
  shows "mount_volume st buf =
     (if cc < 65525 then (FAT32_ERROR_INVALID_FORMAT, st5)
      else case read_sector st (ucast (fat32_info bs)) of
        Inl e \<Rightarrow> (e, st5\<lparr>current_dir_cluster := root_cluster bs\<rparr>)
      | Inr fs \<Rightarrow>
          if lead_sig fs \<noteq> 0x41615252 \<or> struc_sig fs \<noteq> 0x61417272 \<or>
             trail_sig fs \<noteq> 0xAA550000
          then (FAT32_ERROR_INVALID_FORMAT,
                st5\<lparr>current_dir_cluster := root_cluster bs, fsinfo := fs\<rparr>)
          else (FAT32_OK,
                st5\<lparr>current_dir_cluster := root_cluster bs, fsinfo := fs,
                    fat32_mounted := True\<rparr>))"
proof -
  show ?thesis
    using assms(1) unfolding mount_volume_def assms(2) [symmetric] Let_def assms(4)
    by (simp add: assms(3) [symmetric] read_sector_def split: sum.splits)
qed

lemma locate_direct:
  "is_sector_boot_sector (b 0) \<Longrightarrow> \<not> is_sector_mbr (b 0) \<Longrightarrow>
   locate_boot_sector (initial_state (card_of b)) = Inr (initial_state (card_of b), b 0)"
  by (simp add: locate_boot_sector_def read_initial) (simp add: initial_state_def)

lemma mount_start:
  "sd_card_present (card (initial_state (card_of b)))"
  "\<not> fat32_mounted (initial_state (card_of b))"
  "sd_card_init (card (initial_state (card_of b))) = FAT32_OK"
  by (simp_all add: initial_state_simps card_of_simps)

lemma mount_direct:
  assumes "is_sector_boot_sector (b 0)" "\<not> is_sector_mbr (b 0)"
  shows "fat32_mount (initial_state (card_of b)) = mount_volume (initial_state (card_of b)) (b 0)"
  by (rule fat32_mount_unfold [OF mount_start locate_direct [of b, OF assms]])

lemma read_fsinfo_direct:
  "read_sector (initial_state (card_of b)) 1 = Inr (b 1)"
  by (simp add: read_sector_def initial_state_simps card_of_simps)

lemma tight_facts:
  "parse_boot_sector boot_tight = bs_tight"
  "is_valid_fat32_boot_sector bs_tight = FAT32_OK"
  "\<not> is_sector_mbr boot_tight" "is_sector_boot_sector boot_tight"
  by (simp_all add: parse_boot_sector_def boot_tight_def bs_tight_def le32_def le16_def
      zero_sector_def is_valid_fat32_boot_sector_def is_sector_mbr_def is_sector_boot_sector_def)

lemma small_facts:
  "parse_boot_sector boot_small = bs_small"
  "is_valid_fat32_boot_sector bs_small = FAT32_OK"
  "\<not> is_sector_mbr boot_small" "is_sector_boot_sector boot_small"
  by (simp_all add: parse_boot_sector_def boot_small_def bs_small_def le32_def le16_def
      zero_sector_def is_valid_fat32_boot_sector_def is_sector_mbr_def is_sector_boot_sector_def)

lemma fat16_facts:
  "is_valid_fat32_boot_sector (parse_boot_sector boot_fat16) \<noteq> FAT32_OK"
  "\<not> is_sector_mbr boot_fat16" "is_sector_boot_sector boot_fat16"
  by (simp_all add: parse_boot_sector_def boot_fat16_def le32_def le16_def
      zero_sector_def is_valid_fat32_boot_sector_def is_sector_mbr_def is_sector_boot_sector_def)

lemma mount_tight:
  "fat32_mount (initial_state card_tight) =
     (FAT32_OK,
      (initial_state card_tight)
        \<lparr>boot_sector := bs_tight, bytes_per_cluster := 512, first_data_sector := 2050,
         data_region_sectors := 65556, cluster_count := 65556, current_dir_cluster := 2,
         fsinfo := fsinfo_good, fat32_mounted := True\<rparr>)"
proof -
  let ?b = "(\<lambda>_. zero_sector)(0 := boot_tight, 1 := fsinfo_good)"
  have m: "fat32_mount (initial_state (card_of ?b)) = mount_volume (initial_state (card_of ?b)) boot_tight"
    using mount_direct [of ?b] by (simp add: tight_facts)
  have r: "read_sector (initial_state (card_of ?b)) (ucast (fat32_info bs_tight)) = Inr fsinfo_good"
    using read_fsinfo_direct [of ?b] by (simp add: bs_tight_def)
  note v = mount_volume_valid [OF tight_facts(2) tight_facts(1) [symmetric] refl refl,
      of "initial_state (card_of ?b)"]
  have g: "ucast (sectors_per_cluster bs_tight) * FAT32_SECTOR_SIZE = (512 :: u32)"
    "ucast (reserved_sectors bs_tight) + ucast (num_fats bs_tight) * fat_size_32 bs_tight = 2050"
    "total_sectors_32 bs_tight - ucast (num_fats bs_tight) * fat_size_32 bs_tight = 65556"
    "(65556 :: u32) div ucast (sectors_per_cluster bs_tight) = 65556"
    "root_cluster bs_tight = 2"
    by (simp_all add: bs_tight_def)
  show ?thesis
    unfolding card_tight_def m v r g by (simp add: sig_facts)
qed

lemma mount_fat32:
  "fst (fat32_mount (initial_state card_fat32)) = FAT32_OK"
  "cluster_count (snd (fat32_mount (initial_state card_fat32))) = 129054"
proof -
  let ?b = "(\<lambda>_. zero_sector)(0 := boot_fat32, 1 := fsinfo_good)"
  have m: "fat32_mount (initial_state (card_of ?b)) = mount_volume (initial_state (card_of ?b)) boot_fat32"
    using mount_direct [of ?b] by (simp add: boot_fat32_kind)
  have r: "read_sector (initial_state (card_of ?b)) (ucast (fat32_info bs_fat32)) = Inr fsinfo_good"
    using read_fsinfo_direct [of ?b] by (simp add: bs_fat32_def)
  note v = mount_volume_valid [OF valid_bs_fat32 parse_boot_fat32 [symmetric] refl refl,
      of "initial_state (card_of ?b)"]
  have g: "(total_sectors_32 bs_fat32 - ucast (num_fats bs_fat32) * fat_size_32 bs_fat32)
      div ucast (sectors_per_cluster bs_fat32) = 129054"
    by (simp add: bs_fat32_def)
  show "fst (fat32_mount (initial_state card_fat32)) = FAT32_OK"
    "cluster_count (snd (fat32_mount (initial_state card_fat32))) = 129054"
    unfolding card_fat32_def m v r g by (simp_all add: sig_facts)
qed

lemma mount_small:
  "fst (fat32_mount (initial_state card_small)) = FAT32_ERROR_INVALID_FORMAT"
proof -
  let ?b = "(\<lambda>_. zero_sector)(0 := boot_small, 1 := fsinfo_good)"
  have m: "fat32_mount (initial_state (card_of ?b)) = mount_volume (initial_state (card_of ?b)) boot_small"
    using mount_direct [of ?b] by (simp add: small_facts)
  note v = mount_volume_valid [OF small_facts(2) small_facts(1) [symmetric] refl refl,
      of "initial_state (card_of ?b)"]
  have g: "(total_sectors_32 bs_small - ucast (num_fats bs_small) * fat_size_32 bs_small)
      div ucast (sectors_per_cluster bs_small) = 32256"
    by (simp add: bs_small_def)
  show ?thesis
    unfolding card_small_def m v g by simp
qed

lemma mount_fat16:
  "fst (fat32_mount (initial_state card_fat16)) = FAT32_ERROR_INVALID_FORMAT"
proof -
  let ?b = "(\<lambda>_. zero_sector)(0 := boot_fat16)"
  have m: "fat32_mount (initial_state (card_of ?b)) = mount_volume (initial_state (card_of ?b)) boot_fat16"
    using mount_direct [of ?b] by (simp add: fat16_facts)
  show ?thesis
    unfolding card_fat16_def m by (simp add: mount_volume_invalid [OF fat16_facts(1)])
qed

text \<open>
  C7 fails on the code at the boundary.  \<^verbatim>\<open>fat32_mount\<close> takes for the data
  region the total sectors minus the sectors of the FATs, and so counts the reserved
  sectors as data, against what it declares \<^verbatim>\<open>first_data_sector\<close> ("first
  sector of the data region") and \<^verbatim>\<open>data_region_sectors\<close> ("total sectors in the
  data region") to be.  The volume of \<open>card_tight\<close> passes the field validations
  and has 67574 sectors, of which 32 are reserved and 2018 hold the two FATs: its
  data region starts at sector 2050 and has 65524 sectors, one per cluster, fewer
  than 65525.  The mount succeeds all the same, with a stored cluster count of
  65556.  Away from the boundary the check does as claimed: the 64 MiB FAT32
  volume mounts, and the FAT32 volume of 32768 sectors and the FAT16 volume fail
  with invalid-format.
\<close>

theorem mount_counts_reserved_sectors_as_data:
  "parse_boot_sector (sd_blocks card_tight 0) = bs_tight \<and>
   is_valid_fat32_boot_sector bs_tight = FAT32_OK \<and>
   sectors_per_cluster bs_tight = 1 \<and>
   fst (fat32_mount (initial_state card_tight)) = FAT32_OK \<and>
   fat32_mounted (snd (fat32_mount (initial_state card_tight))) \<and>
   first_data_sector (snd (fat32_mount (initial_state card_tight))) = 2050 \<and>
   total_sectors_32 bs_tight - first_data_sector (snd (fat32_mount (initial_state card_tight)))
     = 65524 \<and>
   (65524 :: u32) < 65525 \<and>
   data_region_sectors (snd (fat32_mount (initial_state card_tight))) = 65556 \<and>
   cluster_count (snd (fat32_mount (initial_state card_tight))) = 65556 \<and>
   fst (fat32_mount (initial_state card_fat32)) = FAT32_OK \<and>
   cluster_count (snd (fat32_mount (initial_state card_fat32))) = 129054 \<and>
   fst (fat32_mount (initial_state card_small)) = FAT32_ERROR_INVALID_FORMAT \<and>
   fst (fat32_mount (initial_state card_fat16)) = FAT32_ERROR_INVALID_FORMAT"
proof -
  have b: "sd_blocks card_tight 0 = boot_tight"
    by (simp add: card_tight_def card_of_def)
  have s: "sectors_per_cluster bs_tight = 1" "total_sectors_32 bs_tight - 2050 = 65524"
    by (simp_all add: bs_tight_def)
  show ?thesis
    unfolding mount_tight b
    by (simp add: tight_facts s mount_fat32 mount_small mount_fat16)
qed

text \<open>
  In short: the volume with 65524 data clusters is mounted, and the driver goes on
  with 65556.
\<close>

theorem mount_counts_reserved_sectors_as_data_witness:
  "fst (fat32_mount (initial_state card_tight)) = FAT32_OK \<and>
   total_sectors_32 bs_tight - first_data_sector (snd (fat32_mount (initial_state card_tight)))
     = 65524 \<and>
   cluster_count (snd (fat32_mount (initial_state card_tight))) = 65556"
  using mount_counts_reserved_sectors_as_data by blast

section \<open>Short names and file names\<close>

lemma of_char_toupper:
  "(of_char (toupper c) :: nat) =
     (if 97 \<le> (of_char c :: nat) \<and> (of_char c :: nat) \<le> 122 then of_char c - 32 else of_char c)"
  by (auto simp add: toupper_def Let_def)

lemma tolower_toupper: "tolower (toupper c) = tolower c"
proof (cases "97 \<le> (of_char c :: nat) \<and> (of_char c :: nat) \<le> 122")
  case True
  then have "tolower c = c" by (simp add: tolower_def Let_def)
  moreover from True have "(of_char (toupper c) :: nat) = of_char c - 32"
    by (simp add: of_char_toupper)
  then have "tolower (toupper c) = char_of ((of_char c :: nat) - 32 + 32)"
    using True unfolding tolower_def Let_def by auto
  ultimately show ?thesis using True by simp
next
  case False
  then have "toupper c = c" by (auto simp add: toupper_def Let_def)
  then show ?thesis by simp
qed

lemma toupper_not_space: "(of_char c :: nat) > 32 \<Longrightarrow> toupper c \<noteq> CHR '' ''"
proof
  assume a: "(of_char c :: nat) > 32" and b: "toupper c = CHR '' ''"
  from b have "(of_char (toupper c) :: nat) = 32" by simp
  with a show False by (simp add: of_char_toupper split: if_splits)
qed



lemma takeWhile_stop: "c \<notin> set s \<Longrightarrow> takeWhile (\<lambda>x. x \<noteq> c) (s @ c # t) = s"
  by (induction s) auto

lemma takeWhile_all: "c \<notin> set s \<Longrightarrow> takeWhile (\<lambda>x. x \<noteq> c) s = s"
  by (induction s) auto

lemma filter_padding: "c \<notin> set s \<Longrightarrow> filter (\<lambda>x. x \<noteq> c) (s @ replicate k c) = s"
  by (induction s) auto

lemma length_pad: "length s \<le> n \<Longrightarrow> length (pad n s) = n"
  by (simp add: pad_def)

lemma takeWhile_pad:
  assumes "CHR '' '' \<notin> set s" and "length s \<le> n"
  shows "takeWhile (\<lambda>c. c \<noteq> CHR '' '') (take n (pad n s @ t)) = s"
proof -
  have "take n (pad n s @ t) = pad n s"
    using length_pad [OF assms(2)] by simp
  moreover have "takeWhile (\<lambda>c. c \<noteq> CHR '' '') (pad n s) = s"
  proof (cases "n - length s")
    case 0
    then show ?thesis using assms(1) by (simp add: pad_def takeWhile_all)
  next
    case (Suc k)
    then show ?thesis using assms(1) by (simp add: pad_def takeWhile_stop)
  qed
  ultimately show ?thesis by simp
qed

lemma filter_pad:
  assumes "CHR '' '' \<notin> set s" and "length s \<le> n" and "length u = m"
  shows "filter (\<lambda>c. c \<noteq> CHR '' '') (take n (drop m (u @ pad n s))) = s"
proof -
  have e: "take n (drop m (u @ pad n s)) = pad n s"
    using length_pad [OF assms(2)] assms(3) by simp
  have "filter (\<lambda>c. c \<noteq> CHR '' '') (pad n s) = s"
    unfolding pad_def using assms(1) by (rule filter_padding)
  then show ?thesis
    by (simp only: e)
qed

lemma no_space_toupper:
  assumes "\<not> list_ex bad_char s"
  shows "CHR '' '' \<notin> set (map toupper s)"
proof
  assume "CHR '' '' \<in> set (map toupper s)"
  then obtain c where c: "c \<in> set s" and u: "toupper c = CHR '' ''" by auto
  from assms c have "\<not> bad_char c" by (auto simp add: list_ex_iff)
  then have "(of_char c :: nat) > 32" by (simp add: bad_char_def)
  from toupper_not_space [OF this] u show False by simp
qed

lemma strchr_None: "(strchr s c = None) = (c \<notin> set s)"
  by (simp add: strchr_def)

lemma strrchr_None: "(strrchr s c = None) = (c \<notin> set s)"
  by (simp add: strrchr_def)

lemma strchr_at:
  "c \<notin> set name \<Longrightarrow> strchr (name @ c # ext) c = Some (length name)"
  by (simp add: strchr_def takeWhile_stop)

lemma strrchr_at:
  "c \<notin> set ext \<Longrightarrow> strrchr (name @ c # ext) c = Some (length name)"
  by (simp add: strrchr_def takeWhile_stop)

lemma strchr_split:
  assumes "strchr s c = Some d"
  shows "s = take d s @ c # drop (Suc d) s \<and> c \<notin> set (take d s) \<and> d < length s"
proof -
  from assms have m: "c \<in> set s" and d: "d = length (takeWhile (\<lambda>x. x \<noteq> c) s)"
    by (auto simp add: strchr_def split: if_splits)
  have s: "s = takeWhile (\<lambda>x. x \<noteq> c) s @ dropWhile (\<lambda>x. x \<noteq> c) s"
    by simp
  from m have ne: "dropWhile (\<lambda>x. x \<noteq> c) s \<noteq> []"
    by (simp add: dropWhile_eq_Nil_conv)
  then have hd: "hd (dropWhile (\<lambda>x. x \<noteq> c) s) = c"
    using hd_dropWhile [of "\<lambda>x. x \<noteq> c" s] by simp
  from ne hd obtain t where t: "dropWhile (\<lambda>x. x \<noteq> c) s = c # t"
    by (cases "dropWhile (\<lambda>x. x \<noteq> c) s") auto
  have tk: "take d s = takeWhile (\<lambda>x. x \<noteq> c) s"
    unfolding d by (rule takeWhile_eq_take [symmetric])
  have dr: "drop d s = c # t"
    unfolding d t [symmetric] by (rule dropWhile_eq_drop [symmetric])
  have "drop (Suc d) s = t"
    using dr by (metis drop_Suc list.sel(3) tl_drop)
  moreover have "c \<notin> set (takeWhile (\<lambda>x. x \<noteq> c) s)"
    by (auto dest: set_takeWhileD)
  moreover have "d < length s"
    using dr by (metis drop_all leI list.distinct(1))
  ultimately show ?thesis
    using s t tk by simp
qed

lemma strrchr_unique:
  assumes "strrchr (name @ c # ext) c = Some (length name)"
  shows "c \<notin> set ext"
proof
  assume m: "c \<in> set ext"
  then have "\<exists>x\<in>set (rev ext). \<not> x \<noteq> c" by auto
  then have "takeWhile (\<lambda>x. x \<noteq> c) (rev ext @ c # rev name) = takeWhile (\<lambda>x. x \<noteq> c) (rev ext)"
    by (simp add: takeWhile_append1)
  moreover from assms
  have "length (name @ c # ext) - 1 - length (takeWhile (\<lambda>x. x \<noteq> c) (rev ext @ c # rev name))
      = length name"
    by (simp add: strrchr_def)
  ultimately have "length (takeWhile (\<lambda>x. x \<noteq> c) (rev ext)) = length ext"
    using length_takeWhile_le [of "\<lambda>x. x \<noteq> c" "rev ext"] by simp
  then have "takeWhile (\<lambda>x. x \<noteq> c) (rev ext) = rev ext"
    by (metis length_rev takeWhile_eq_take take_all order_refl)
  then have "\<forall>x\<in>set (rev ext). x \<noteq> c"
    by (simp add: takeWhile_eq_all_conv)
  with m show False by auto
qed


lemma valid_shortname_Some:
  "strchr f CHR ''.'' = Some d \<Longrightarrow>
   valid_shortname f =
     (f \<noteq> [] \<and> length f \<le> 12 \<and> strrchr f CHR ''.'' = Some d \<and> d \<noteq> 0 \<and> d \<le> 8 \<and>
      length f - d - 1 \<le> 3 \<and> \<not> list_ex bad_char (take d f) \<and>
      \<not> list_ex bad_char (take (length f - d - 1) (drop (d + 1) f)))"
  by (cases "strrchr f CHR ''.''") (auto simp add: valid_shortname_def Let_def)

lemma valid_shortname_shape:
  assumes "valid_shortname f"
  shows "(CHR ''.'' \<notin> set f \<and> f \<noteq> [] \<and> length f \<le> 8 \<and> \<not> list_ex bad_char f) \<or>
         (\<exists>name ext. f = name @ CHR ''.'' # ext \<and> CHR ''.'' \<notin> set name \<and>
            CHR ''.'' \<notin> set ext \<and> name \<noteq> [] \<and> length name \<le> 8 \<and>
            length ext \<le> 3 \<and> \<not> list_ex bad_char name \<and> \<not> list_ex bad_char ext)"
proof (cases "strchr f CHR ''.''")
  case None
  then have "CHR ''.'' \<notin> set f" by (simp add: strchr_None)
  moreover from assms None have "f \<noteq> [] \<and> length f \<le> 8 \<and> \<not> list_ex bad_char f"
    unfolding valid_shortname_def Let_def by (simp split: if_splits)
  ultimately show ?thesis by simp
next
  case (Some d)
  from strchr_split [OF Some]
  have f: "f = take d f @ CHR ''.'' # drop (Suc d) f" and n: "CHR ''.'' \<notin> set (take d f)"
    and d: "d < length f" by simp_all
  from assms have r: "strrchr f CHR ''.'' = Some d" and d0: "d \<noteq> 0" and d8: "d \<le> 8"
    and e3: "length f - d - 1 \<le> 3"
    and b1: "\<not> list_ex bad_char (take d f)"
    and b2: "\<not> list_ex bad_char (take (length f - d - 1) (drop (d + 1) f))"
    unfolding valid_shortname_Some [OF Some] by simp_all
  have ld: "length (take d f) = d" using d by simp
  have ne: "take d f \<noteq> []" using d d0 by auto
  have "strrchr (take d f @ CHR ''.'' # drop (Suc d) f) CHR ''.'' = Some (length (take d f))"
    using r f ld by simp
  then have x: "CHR ''.'' \<notin> set (drop (Suc d) f)" by (rule strrchr_unique)
  have "length (drop (Suc d) f) \<le> 3" using e3 by simp
  moreover have "\<not> list_ex bad_char (drop (Suc d) f)" using b2 by simp
  ultimately show ?thesis
    using f n x ne d8 b1 ld by (intro disjI2 exI [of _ "take d f"] exI [of _ "drop (Suc d) f"]) simp
qed


lemma shortname_roundtrip_nodot:
  assumes "CHR ''.'' \<notin> set f" and "length f \<le> 8" and "\<not> list_ex bad_char f"
  shows "shortname_to_filename (filename_to_shortname f) = map tolower f"
proof -
  have s: "filename_to_shortname f = pad 8 (map toupper f) @ pad 3 []"
    using assms(1,2) by (simp add: filename_to_shortname_def strrchr_def)
  have n: "takeWhile (\<lambda>c. c \<noteq> CHR '' '') (take 8 (pad 8 (map toupper f) @ pad 3 [])) = map toupper f"
    using no_space_toupper [OF assms(3)] assms(2) by (intro takeWhile_pad) simp_all
  have e: "filter (\<lambda>c. c \<noteq> CHR '' '') (take 3 (drop 8 (pad 8 (map toupper f) @ pad 3 []))) = []"
    using assms(2) by (intro filter_pad) (simp_all add: length_pad)
  show ?thesis
    unfolding s shortname_to_filename_def Let_def n e
    by (simp add: tolower_toupper)
qed

lemma shortname_roundtrip_dot:
  assumes "CHR ''.'' \<notin> set name" and "CHR ''.'' \<notin> set ext" and "length name \<le> 8"
    and "length ext \<le> 3" and "\<not> list_ex bad_char name" and "\<not> list_ex bad_char ext"
  shows "shortname_to_filename (filename_to_shortname (name @ CHR ''.'' # ext)) =
    (if ext = [] then map tolower name else map tolower (name @ CHR ''.'' # ext))"
proof -
  have s: "filename_to_shortname (name @ CHR ''.'' # ext) =
      pad 8 (map toupper name) @ pad 3 (map toupper ext)"
    using assms(3,4) by (simp add: filename_to_shortname_def strrchr_at [OF assms(2)])
  have n: "takeWhile (\<lambda>c. c \<noteq> CHR '' '')
      (take 8 (pad 8 (map toupper name) @ pad 3 (map toupper ext))) = map toupper name"
    using no_space_toupper [OF assms(5)] assms(3) by (intro takeWhile_pad) simp_all
  have e: "filter (\<lambda>c. c \<noteq> CHR '' '')
      (take 3 (drop 8 (pad 8 (map toupper name) @ pad 3 (map toupper ext)))) = map toupper ext"
    using no_space_toupper [OF assms(6)] assms(3,4) by (intro filter_pad) (simp_all add: length_pad)
  have dot: "tolower CHR ''.'' = CHR ''.''"
    by (simp add: tolower_def)
  show ?thesis
    unfolding s shortname_to_filename_def Let_def n e
    by (simp add: tolower_toupper dot)
qed

lemma shortname_roundtrip_lower:
  assumes "valid_shortname f"
  shows "shortname_to_filename (filename_to_shortname f) =
    map tolower (if last f = CHR ''.'' then butlast f else f)"
  using valid_shortname_shape [OF assms]
proof (elim disjE exE conjE)
  assume a: "CHR ''.'' \<notin> set f" "f \<noteq> []" "length f \<le> 8" "\<not> list_ex bad_char f"
  then have "last f \<noteq> CHR ''.''" by (metis last_in_set)
  with a show ?thesis by (simp add: shortname_roundtrip_nodot)
next
  fix name ext
  assume a: "f = name @ CHR ''.'' # ext" "CHR ''.'' \<notin> set name" "CHR ''.'' \<notin> set ext"
    "name \<noteq> []" "length name \<le> 8" "length ext \<le> 3" "\<not> list_ex bad_char name"
    "\<not> list_ex bad_char ext"
  have r: "shortname_to_filename (filename_to_shortname f) =
    (if ext = [] then map tolower name else map tolower (name @ CHR ''.'' # ext))"
    unfolding a(1) using a(2,3,5-8) by (rule shortname_roundtrip_dot)
  show ?thesis
  proof (cases "ext = []")
    case True
    then show ?thesis using r a(1) by (simp add: butlast_append)
  next
    case False
    then have "last f = last ext" using a(1) by simp
    moreover have "last ext \<noteq> CHR ''.''" using False a(3) by (metis last_in_set)
    ultimately show ?thesis using r False a(1) by simp
  qed
qed

lemma toupper_tolower: "toupper (tolower c) = toupper c"
proof (cases "65 \<le> (of_char c :: nat) \<and> (of_char c :: nat) \<le> 90")
  case True
  then have "toupper c = c" by (auto simp add: toupper_def Let_def)
  moreover from True have "tolower c = char_of ((of_char c :: nat) + 32)"
    by (simp add: tolower_def Let_def)
  then have "toupper (tolower c) = char_of ((of_char c :: nat) + 32 - 32)"
    using True unfolding toupper_def Let_def by auto
  ultimately show ?thesis by simp
next
  case False
  then have "tolower c = c" by (auto simp add: tolower_def Let_def)
  then show ?thesis by simp
qed

text \<open>
  C8, as amended.  For every file name that \<^verbatim>\<open>valid_shortname\<close> accepts,
  \<^verbatim>\<open>filename_to_shortname\<close> followed by \<^verbatim>\<open>shortname_to_filename\<close> yields the
  name in lower case, without its final dot if it ends in one: the conversions are
  inverse to each other up to case on the valid names that do not end in a dot,
  and drop the dot of those that do.
\<close>

theorem shortname_roundtrip:
  assumes "valid_shortname f"
  shows "shortname_to_filename (filename_to_shortname f) =
      map tolower (if last f = CHR ''.'' then butlast f else f) \<and>
    map toupper (shortname_to_filename (filename_to_shortname f)) =
      map toupper (if last f = CHR ''.'' then butlast f else f)"
  by (simp add: shortname_roundtrip_lower [OF assms] toupper_tolower)

text \<open>
  C8 as stated fails: \<^verbatim>\<open>"A."\<close> passes \<^verbatim>\<open>valid_shortname\<close> (one dot, not at
  the start, an empty extension), its short name is \<^verbatim>\<open>"A"\<close> padded with spaces,
  and the way back gives \<^verbatim>\<open>"a"\<close>, which differs from \<^verbatim>\<open>"A."\<close> by more than
  case.
\<close>

theorem shortname_roundtrip_counterexample:
  "valid_shortname ''A.'' \<and>
   filename_to_shortname ''A.'' = ''A          '' \<and>
   shortname_to_filename (filename_to_shortname ''A.'') = ''a'' \<and>
   map toupper (shortname_to_filename (filename_to_shortname ''A.'')) \<noteq> map toupper ''A.''"
  by code_simp

theorem shortname_roundtrip_witness:
  "valid_shortname ''Readme.txt'' \<and>
   shortname_to_filename (filename_to_shortname ''Readme.txt'') = ''readme.txt'' \<and>
   valid_shortname ''A.'' \<and>
   shortname_to_filename (filename_to_shortname ''A.'') = ''a''"
proof -
  have v: "valid_shortname ''Readme.txt''" and w: "valid_shortname ''A.''"
    by code_simp+
  have r: "map tolower (if last ''Readme.txt'' = CHR ''.'' then butlast ''Readme.txt''
      else ''Readme.txt'') = ''readme.txt''"
    "map tolower (if last ''A.'' = CHR ''.'' then butlast ''A.'' else ''A.'') = ''a''"
    by code_simp+
  show ?thesis
    using shortname_roundtrip [OF v] shortname_roundtrip [OF w] v w unfolding r by simp
qed

section \<open>Unique short names\<close>

lemma longfilename_parts:
  "shortname_parts ''LONGFILENAME.TXT'' = (''LONGFILE'', ''TXT'', False)"
  by code_simp

lemma longfilename_not_83: "\<not> valid_shortname ''LONGFILENAME.TXT''"
  by code_simp

lemma longfilename_alone: "unique_shortname [] ''LONGFILENAME.TXT'' = Inr ''LONGFILETXT''"
proof -
  have "\<not> shortname_exists (pad 8 ''LONGFILE'' @ pad 3 ''TXT'') []"
    by code_simp
  moreover have "pad 8 ''LONGFILE'' @ pad 3 ''TXT'' = ''LONGFILETXT''"
    by code_simp
  ultimately show ?thesis
    by (simp add: unique_shortname_def longfilename_parts)
qed

lemma longfilename_collides: "unique_shortname [''LONGFILE.TXT''] ''LONGFILENAME.TXT'' = Inr ''LONGFI~1TXT''"
proof -
  have e: "shortname_exists (pad 8 ''LONGFILE'' @ pad 3 ''TXT'') [''LONGFILE.TXT'']"
    by code_simp
  have "tail_candidate ''LONGFILE'' ''TXT'' 1 = ''LONGFI~1TXT''"
    by code_simp
  moreover have "\<not> shortname_exists ''LONGFI~1TXT'' [''LONGFILE.TXT'']"
    by code_simp
  ultimately have "numeric_tail [''LONGFILE.TXT''] ''LONGFILE'' ''TXT'' 1 = Inr ''LONGFI~1TXT''"
    by (subst numeric_tail.simps) simp
  with e show ?thesis
    by (simp add: unique_shortname_def longfilename_parts)
qed


text \<open>
  C3 fails on the code.  \<^verbatim>\<open>"LONGFILENAME.TXT"\<close> is not a valid 8.3 name, so
  \<^verbatim>\<open>link_entry\<close> asks \<^verbatim>\<open>unique_shortname\<close> for its short name.  In a
  directory with no colliding entry the base is cut to 8 characters and the result
  is \<^verbatim>\<open>"LONGFILETXT"\<close> with no numeric tail: the test \<^verbatim>\<open>name_len > 8\<close> can
  never hold, since the loop that fills the base stops at 8.  Only when
  \<^verbatim>\<open>"LONGFILE.TXT"\<close> already exists is the tail appended, giving
  \<^verbatim>\<open>"LONGFI~1TXT"\<close>.
\<close>

theorem unique_shortname_truncated_without_tail:
  "\<not> valid_shortname ''LONGFILENAME.TXT'' \<and>
   unique_shortname [] ''LONGFILENAME.TXT'' = Inr ''LONGFILETXT'' \<and>
   unique_shortname [''LONGFILE.TXT''] ''LONGFILENAME.TXT'' = Inr ''LONGFI~1TXT''"
  using longfilename_not_83 longfilename_alone longfilename_collides by simp


section \<open>Reading at the end of a file\<close>







lemma ready_volume_state:
  "fat32_is_ready (volume_state (card_of b) fs) = (True, volume_state (card_of b) fs)"
  by (simp add: fat32_is_ready_def volume_state_def card_of_simps Let_def)

lemma file_blocks:
  "sd_read_block (card_file fs) 32 = Inr fat_sector_b"
  "sd_read_block (card_file fs) 2053 = Inr data_sector"
  by (simp_all add: card_file_def card_of_simps)

lemma read_entry_5:
  "read_cluster_fat_entry (volume_state (card_file fs) fs') 5 = Inr 0x0FFFFFFF"
proof -
  have "fat_sector (volume_state (card_file fs) fs') 5 = 32"
    by (simp add: fat_sector_def volume_state_def bs_fat32_def)
  moreover have "entry_offset 5 = 20"
    by (simp add: entry_offset_def)
  moreover have "le32 fat_sector_b 20 = 0x0FFFFFFF"
    by (simp add: le32_def fat_sector_b_def zero_sector_def)
  moreover have "read_sector (volume_state (card_file fs) fs') 32 = Inr fat_sector_b"
    by (simp add: read_sector_def volume_state_def file_blocks)
  ultimately show ?thesis
    by (simp add: read_cluster_fat_entry_def)
qed



section \<open>Releasing a chain\<close>

lemma release_cluster_chain_after_loop:
  assumes "2 \<le> start"
    and "release_loop st start 0 0xFFFFFFFF = Some (FAT32_OK, st1, n, lowest)"
    and "fs1 = set_free_count (fsinfo st1) (free_count (fsinfo st1) + n)"
    and "fs2 = (if next_free fs1 > lowest then set_next_free fs1 lowest else fs1)"
  shows "release_cluster_chain st start =
    (case write_sector (st1\<lparr>fsinfo := fs2\<rparr>) (ucast (fat32_info (boot_sector st1))) fs2 of
       Inl e \<Rightarrow> Some (e, st1\<lparr>fsinfo := fs2\<rparr>)
     | Inr st3 \<Rightarrow> Some (FAT32_OK, st3))"
proof -
  from assms(1) have "\<not> start < 2" by (simp add: not_less)
  then show ?thesis
    unfolding assms(3,4) by (simp add: release_cluster_chain_def assms(2) Let_def)
qed

lemma unknown_hints:
  "free_count fsinfo_unknown = 0xFFFFFFFF" "next_free fsinfo_unknown = 3"
  by (simp_all add: free_count_def next_free_def le32_def fsinfo_unknown_def fsinfo_good_def
      zero_sector_def)

text \<open>
  C5 fails on the code where the free count is unknown.  On a volume whose cached
  free count is the sentinel \<open>0xFFFFFFFF\<close>, releasing the one-cluster chain that
  starts at cluster 5 succeeds and frees the cluster, the next-free hint stays 3,
  and the free count becomes 0: \<^verbatim>\<open>fsinfo.free_count += total_clusters\<close> wraps the
  sentinel around.
\<close>

theorem release_chain_wraps_unknown_free_count:
  "free_count (fsinfo (volume_state (card_file fsinfo_unknown) fsinfo_unknown)) = 0xFFFFFFFF \<and>
   read_cluster_fat_entry (volume_state (card_file fsinfo_unknown) fsinfo_unknown) 5 =
     Inr 0x0FFFFFFF \<and>
   map_option (\<lambda>(e, st'). (e, free_count (fsinfo st'), next_free (fsinfo st'),
        read_cluster_fat_entry st' 5))
     (release_cluster_chain (volume_state (card_file fsinfo_unknown) fsinfo_unknown) 5) =
     Some (FAT32_OK, 0, 3, Inr 0)"
proof -
  let ?st = "volume_state (card_file fsinfo_unknown) fsinfo_unknown"
  let ?blk = "put_le32 fat_sector_b 20 0"
  define st1 where "st1 = ?st\<lparr>card := (card ?st)\<lparr>sd_blocks := (sd_blocks (card ?st))(32 := ?blk)\<rparr>\<rparr>"
  have loc: "volume_start_block ?st + fat_sector ?st 5 = 32" "entry_offset 5 = 20"
    by (simp_all add: fat_sector_def volume_state_def bs_fat32_def entry_offset_def)
  have io: "\<not> sd_read_fails (card ?st) 32" "\<not> sd_write_fails (card ?st) 32"
    "sd_blocks (card ?st) 32 = fat_sector_b"
    by (simp_all add: volume_state_def card_file_def card_of_def)
  have old: "stored_fat_entry ?st 5 = 0x0FFFFFFF"
    by (simp add: stored_fat_entry_def loc io le32_def fat_sector_b_def zero_sector_def)
  have w: "write_cluster_fat_entry ?st 5 0 = Inr st1"
    by (simp add: write_cluster_fat_entry_eq Let_def loc io old st1_def)
  have l2: "release_loop st1 0x0FFFFFFF 1 5 = Some (FAT32_OK, st1, 1, 5)"
    by (subst release_loop.simps) simp
  have l1: "release_loop ?st 5 0 0xFFFFFFFF = Some (FAT32_OK, st1, 1, 5)"
    by (subst release_loop.simps) (simp add: read_entry_5 w l2)
  have f1: "fsinfo st1 = fsinfo_unknown" "ucast (fat32_info (boot_sector st1)) = (1::u32)"
    "volume_start_block st1 = 0" "\<not> sd_write_fails (card st1) 1"
    by (simp_all add: st1_def volume_state_def bs_fat32_def card_file_def card_of_def)
  define fs2 where "fs2 = set_free_count fsinfo_unknown 0"
  have nf: "next_free fs2 = 3" "free_count fs2 = 0"
    by (simp_all add: fs2_def set_free_count_def free_count_def next_free_def le32_put_le32)
      (simp add: put_le32_def le32_def fsinfo_unknown_def fsinfo_good_def zero_sector_def)
  define st3 where "st3 = st1\<lparr>fsinfo := fs2,
    card := (card st1)\<lparr>sd_blocks := (sd_blocks (card st1))(1 := fs2)\<rparr>\<rparr>"
  have wrap: "free_count fsinfo_unknown + 1 = 0"
    by (simp add: unknown_hints)
  have fs1: "fs2 = set_free_count (fsinfo st1) (free_count (fsinfo st1) + 1)"
    unfolding f1 wrap fs2_def by (rule refl)
  have keep: "fs2 = (if next_free fs2 > 5 then set_next_free fs2 5 else fs2)"
    by (simp add: nf)
  have two: "(2::u32) \<le> 5"
    by simp
  have r: "release_cluster_chain ?st 5 = Some (FAT32_OK, st3)"
    unfolding release_cluster_chain_after_loop [OF two l1 fs1 keep]
    by (simp add: write_sector_def sd_write_block_def st3_def f1)
  have loc3: "volume_start_block st3 + fat_sector st3 5 = 32"
    "\<not> sd_read_fails (card st3) 32" "sd_blocks (card st3) 32 = ?blk"
    by (simp_all add: st3_def st1_def fat_sector_def volume_state_def bs_fat32_def
        card_file_def card_of_def)
  have new: "read_cluster_fat_entry st3 5 = Inr 0"
    by (simp add: read_cluster_fat_entry_eq stored_fat_entry_def loc3 loc le32_put_le32)
  have "fsinfo st3 = fs2"
    by (simp add: st3_def)
  with r new nf read_entry_5 [of fsinfo_unknown fsinfo_unknown] show ?thesis
    by (simp add: volume_state_def unknown_hints)
qed


section \<open>Unlinking a directory entry\<close>

lemma dir_blocks:
  "read_sector (volume_state card_dir fs) 2051 = Inr dir_sector_head"
  "read_sector (volume_state card_dir fs) 2052 = Inr dir_sector_both"
  "sd_blocks card_dir 2050 = dir_sector_tail"
  by (simp_all add: read_sector_def sd_read_block_def volume_state_def card_dir_def card_of_def)

lemma dir_write:
  "write_sector (volume_state card_dir fs) s buf =
     Inr (volume_state (card_dir\<lparr>sd_blocks := (sd_blocks card_dir)(s := buf)\<rparr>) fs)"
  by (simp add: write_sector_def sd_write_block_def volume_state_def card_dir_def card_of_def)

lemma mark_head: "mark_lfn_slots dir_sector_head 0 (Suc 0) = dir_sector_head"
  by (subst mark_lfn_slots.simps) simp

lemma mark_both: "mark_lfn_slots dir_sector_both 32 (Suc 0) = dir_sector_both(0 := 0xE5)"
proof -
  have a: "dir_sector_both 11 = FAT32_ATTR_LONG_NAME"
    by (simp add: dir_sector_both_def zero_sector_def)
  have "mark_lfn_slots (dir_sector_both(0 := 0xE5)) 32 (Suc (Suc 0)) = dir_sector_both(0 := 0xE5)"
    by (subst mark_lfn_slots.simps) simp
  then show ?thesis
    using a by (subst mark_lfn_slots.simps) simp
qed

text \<open>
  C4 fails on the code where the long-name fragments lie in the sector before the
  short-name record.  The record at offset 0 of sector 2051 is preceded by a
  fragment in the last slot of sector 2050; \<^verbatim>\<open>unlink_entry\<close> marks the record
  deleted and leaves the fragment as it was, since its scan stops at the start of
  the one sector it has read.  Where fragment and record share a sector (2052),
  both are marked.
\<close>

theorem unlink_leaves_fragment_in_previous_sector:
  "sd_blocks card_dir 2050 491 = FAT32_ATTR_LONG_NAME \<and>
   sd_blocks card_dir 2050 480 = 0x41 \<and>
   map_prod id (\<lambda>st'. (sd_blocks (card st') 2051 0, sd_blocks (card st') 2050 480))
     (unlink_entry (volume_state card_dir fsinfo_good) (Some (entry_at 2051 0))) =
     (FAT32_OK, FAT32_DIR_ENTRY_FREE, 0x41) \<and>
   map_prod id (\<lambda>st'. (sd_blocks (card st') 2052 32, sd_blocks (card st') 2052 0))
     (unlink_entry (volume_state card_dir fsinfo_good) (Some (entry_at 2052 32))) =
     (FAT32_OK, FAT32_DIR_ENTRY_FREE, FAT32_DIR_ENTRY_FREE)"
proof -
  have t: "dir_sector_tail 491 = 0x0F" "dir_sector_tail 480 = 0x41"
    by (simp_all add: dir_sector_tail_def zero_sector_def)
  have e: "entry_start_cluster (entry_at s off) = 5" "entry_sector (entry_at s off) = s"
    "entry_offset_in_sector (entry_at s off) = off" for s off
    by (simp_all add: entry_at_def)
  have u1: "unlink_entry (volume_state card_dir fsinfo_good) (Some (entry_at 2051 0)) =
      (FAT32_OK, volume_state (card_dir\<lparr>sd_blocks := (sd_blocks card_dir)
         (2051 := dir_sector_head(0 := 0xE5))\<rparr>) fsinfo_good)"
    by (simp add: unlink_entry_def e dir_blocks mark_head dir_write Let_def)
  have u2: "unlink_entry (volume_state card_dir fsinfo_good) (Some (entry_at 2052 32)) =
      (FAT32_OK, volume_state (card_dir\<lparr>sd_blocks := (sd_blocks card_dir)
         (2052 := dir_sector_both(0 := 0xE5, 32 := 0xE5))\<rparr>) fsinfo_good)"
    by (simp add: unlink_entry_def e dir_blocks mark_both dir_write Let_def)
  show ?thesis
    unfolding u1 u2 by (simp add: dir_blocks t volume_state_def)
qed

section \<open>What a write leaves alone\<close>

text \<open>
  Writing a sector changes that block of the card and nothing else, and writing a
  FAT entry keeps the top four bits of the entry.
\<close>

lemma write_sector_Inr:
  assumes "write_sector st s buf = Inr st'"
  shows "st' = st\<lparr>card := (card st)\<lparr>sd_blocks := (sd_blocks (card st))(volume_start_block st + s := buf)\<rparr>\<rparr>"
  using assms by (auto simp add: write_sector_def sd_write_block_def split: if_splits)

lemma read_sector_write_other:
  assumes "write_sector st s buf = Inr st'" "s' \<noteq> s"
  shows "read_sector st' s' = read_sector st s'"
  using assms(2) unfolding write_sector_Inr [OF assms(1)]
  by (simp add: read_sector_def sd_read_block_def)

lemma read_sector_write_same:
  assumes "write_sector st s buf = Inr st'" "read_sector st s = Inr old"
  shows "read_sector st' s = Inr buf"
  using assms(2) unfolding write_sector_Inr [OF assms(1)]
  by (simp add: read_sector_def sd_read_block_def split: if_splits)

lemma write_sector_fields:
  assumes "write_sector st s buf = Inr st'"
  shows "boot_sector st' = boot_sector st" "fsinfo st' = fsinfo st"
    "cluster_count st' = cluster_count st" "bytes_per_cluster st' = bytes_per_cluster st"
    "first_data_sector st' = first_data_sector st"
    "volume_start_block st' = volume_start_block st"
  unfolding write_sector_Inr [OF assms] by simp_all

lemma write_sector_geometry:
  assumes "write_sector st s buf = Inr st'"
  shows "fat_sector st' = fat_sector st" "cluster_to_sector st' = cluster_to_sector st"
  by (simp_all add: fun_eq_iff fat_sector_def cluster_to_sector_def write_sector_fields [OF assms])

lemma write_cluster_fat_entry_Inr:
  assumes "write_cluster_fat_entry st c v = Inr st'"
  obtains buf where "2 \<le> c" "read_sector st (fat_sector st c) = Inr buf"
    "write_sector st (fat_sector st c)
       (put_le32 buf (entry_offset c) ((le32 buf (entry_offset c) AND 0xF0000000) OR (v AND 0x0FFFFFFF)))
     = Inr st'"
  using assms
  by (auto simp add: write_cluster_fat_entry_def Let_def not_less split: if_splits sum.splits)

lemma read_after_write_entry:
  assumes "write_cluster_fat_entry st c v = Inr st'"
  shows "read_cluster_fat_entry st' c = Inr (v AND 0x0FFFFFFF)"
proof -
  from assms obtain buf where c: "2 \<le> c" and r: "read_sector st (fat_sector st c) = Inr buf"
    and w: "write_sector st (fat_sector st c)
       (put_le32 buf (entry_offset c) ((le32 buf (entry_offset c) AND 0xF0000000) OR (v AND 0x0FFFFFFF)))
     = Inr st'"
    by (rule write_cluster_fat_entry_Inr)
  have "\<not> c < 2"
    using c by (simp add: not_less)
  then show ?thesis
    by (simp add: read_cluster_fat_entry_def write_sector_geometry [OF w]
        read_sector_write_same [OF w r] le32_put_le32 mask_take_low)
qed

lemma write_entry_fields:
  assumes "write_cluster_fat_entry st c v = Inr st'"
  shows "boot_sector st' = boot_sector st" "fsinfo st' = fsinfo st"
    "cluster_count st' = cluster_count st" "bytes_per_cluster st' = bytes_per_cluster st"
    "first_data_sector st' = first_data_sector st"
    "volume_start_block st' = volume_start_block st"
    "fat_sector st' = fat_sector st" "cluster_to_sector st' = cluster_to_sector st"
  using assms
  by (auto elim!: write_cluster_fat_entry_Inr simp add: write_sector_fields write_sector_geometry)

lemma free_cluster_loop_Inr:
  "free_cluster_loop st i = Inr c \<Longrightarrow>
     c < cluster_count st + 2 \<and> read_cluster_fat_entry st c = Inr 0"
proof (induction st i rule: free_cluster_loop.induct)
  case (1 st i)
  from "1.prems" show ?case
    apply (subst (asm) free_cluster_loop.simps)
    using "1.IH" by (auto split: if_splits sum.splits)
qed

lemma get_next_free_cluster_Inr:
  assumes "get_next_free_cluster st = Inr c"
  shows "2 \<le> c" "c < cluster_count st + 2" "read_cluster_fat_entry st c = Inr 0"
proof -
  from assms have r: "c < cluster_count st + 2 \<and> read_cluster_fat_entry st c = Inr 0"
    unfolding get_next_free_cluster_def by (rule free_cluster_loop_Inr)
  then show "c < cluster_count st + 2" "read_cluster_fat_entry st c = Inr 0"
    by simp_all
  from r show "2 \<le> c"
    by (auto simp add: read_cluster_fat_entry_def not_less split: if_splits)
qed

lemma count_allocation_fields:
  "boot_sector (count_allocation st) = boot_sector st"
  "cluster_count (count_allocation st) = cluster_count st"
  "bytes_per_cluster (count_allocation st) = bytes_per_cluster st"
  "first_data_sector (count_allocation st) = first_data_sector st"
  "volume_start_block (count_allocation st) = volume_start_block st"
  by (auto simp add: count_allocation_def update_fsinfo_def Let_def write_sector_fields
      split: sum.splits)

lemma count_allocation_geometry:
  "fat_sector (count_allocation st) = fat_sector st"
  "cluster_to_sector (count_allocation st) = cluster_to_sector st"
  by (simp_all add: fun_eq_iff fat_sector_def cluster_to_sector_def count_allocation_fields)

lemma read_sector_fsinfo_update [simp]:
  "read_sector (st\<lparr>fsinfo := fs\<rparr>) s = read_sector st s"
  by (simp add: read_sector_def)

lemma read_sector_count_allocation:
  assumes "s \<noteq> ucast (fat32_info (boot_sector st))"
  shows "read_sector (count_allocation st) s = read_sector st s"
proof (cases "free_count (fsinfo st) \<noteq> 0xFFFFFFFF")
  case False
  then show ?thesis by (simp add: count_allocation_def)
next
  case True
  define st1 where "st1 = st\<lparr>fsinfo := set_free_count (fsinfo st) (free_count (fsinfo st) - 1)\<rparr>"
  show ?thesis
  proof (cases "update_fsinfo st1")
    case (Inl e)
    with True show ?thesis
      by (simp add: count_allocation_def Let_def st1_def [symmetric]) (simp add: st1_def)
  next
    case (Inr st2)
    then have w: "write_sector st1 (ucast (fat32_info (boot_sector st1))) (fsinfo st1) = Inr st2"
      by (simp add: update_fsinfo_def)
    have "read_sector st2 s = read_sector st1 s"
      using assms by (intro read_sector_write_other [OF w]) (simp add: st1_def)
    with True Inr show ?thesis
      by (simp add: count_allocation_def Let_def st1_def [symmetric]) (simp add: st1_def)
  qed
qed

lemma read_entry_count_allocation:
  assumes "fat_sector st c \<noteq> ucast (fat32_info (boot_sector st))"
  shows "read_cluster_fat_entry (count_allocation st) c = read_cluster_fat_entry st c"
  by (simp add: read_cluster_fat_entry_def count_allocation_geometry
      read_sector_count_allocation [OF assms])

lemma read_entry_write_sector_other:
  assumes "write_sector st s buf = Inr st'" "fat_sector st c \<noteq> s"
  shows "read_cluster_fat_entry st' c = read_cluster_fat_entry st c"
  by (simp add: read_cluster_fat_entry_def write_sector_geometry [OF assms(1)]
      read_sector_write_other [OF assms])

section \<open>Errors of the sector layer\<close>







section \<open>Linking a new entry\<close>



section \<open>A write never shrinks the file\<close>




lemma truncate_chain_grown:
  "old \<le> file_size f \<Longrightarrow> truncate_chain st f old = Some (st, f)"
  by (simp add: truncate_chain_def not_less [symmetric])



section \<open>Example: creating a file\<close>

text \<open>Creating a file on \<open>card_new\<close> yields \<open>handle_new\<close>.\<close>

lemma reliable_read: "reliable st \<Longrightarrow> \<exists>buf. read_sector st s = Inr buf"
  by (simp add: reliable_def read_sector_def sd_read_block_def)

lemma reliable_write:
  "reliable st \<Longrightarrow> \<exists>st'. write_sector st s buf = Inr st' \<and> reliable st'"
  by (simp add: reliable_def write_sector_def sd_write_block_def)

lemma reliable_write_entry:
  assumes "reliable st" "2 \<le> c"
  shows "\<exists>st'. write_cluster_fat_entry st c v = Inr st' \<and> reliable st'"
proof -
  from reliable_read [OF assms(1)] obtain buf where "read_sector st (fat_sector st c) = Inr buf"
    by blast
  moreover have "\<not> c < 2"
    using assms(2) by (simp add: not_less)
  ultimately show ?thesis
    using reliable_write [OF assms(1)] by (simp add: write_cluster_fat_entry_def Let_def)
qed

lemma reliable_count_allocation: "reliable st \<Longrightarrow> reliable (count_allocation st)"
proof -
  assume r: "reliable st"
  define st1 where "st1 = st\<lparr>fsinfo := set_free_count (fsinfo st) (free_count (fsinfo st) - 1)\<rparr>"
  have r1: "reliable st1"
    using r by (simp add: reliable_def st1_def)
  from reliable_write [OF r1] obtain st2 where
    "write_sector st1 (ucast (fat32_info (boot_sector st1))) (fsinfo st1) = Inr st2" "reliable st2"
    by blast
  then show ?thesis
    using r by (simp add: count_allocation_def Let_def st1_def [symmetric] update_fsinfo_def)
qed



lemma good_hints: "free_count fsinfo_good = 126976" "next_free fsinfo_good = 3"
  by (simp_all add: free_count_def next_free_def le32_def fsinfo_good_def zero_sector_def)



section \<open>Sectors of the FAT and of the data region\<close>

text \<open>
  Under \<open>geometry_ok\<close> the FAT sectors of valid clusters lie after the FSInfo
  sector and before the data region, and distinct clusters have distinct entries.
\<close>

lemma valid_cluster_unat:
  assumes "geometry_ok st" "valid_cluster st c"
  shows "2 \<le> unat c" "unat c < unat (cluster_count st) + 2"
proof -
  have "unat (cluster_count st) + unat (2 :: u32) < 2 ^ 32"
    using assms(1) by (simp add: geometry_ok_def)
  then have "unat (cluster_count st + 2) = unat (cluster_count st) + unat (2 :: u32)"
    by (intro unat_add_lem [THEN iffD1]) simp
  then show "unat c < unat (cluster_count st) + 2"
    using assms(2) by (simp add: valid_cluster_def word_less_nat_alt)
  show "2 \<le> unat c"
    using assms(2) by (simp add: valid_cluster_def word_le_nat_alt)
qed

lemma valid_cluster_below_eoc:
  assumes "geometry_ok st" "valid_cluster st c"
  shows "c < FAT32_FAT_ENTRY_EOC" "c \<noteq> 0" "c AND 0x0FFFFFFF = c"
proof -
  note u = valid_cluster_unat [OF assms]
  have b: "unat c < 0x0FFFFFF8"
    using u assms(1) by (simp add: geometry_ok_def)
  then show "c < FAT32_FAT_ENTRY_EOC"
    by (simp add: word_less_nat_alt)
  show "c \<noteq> 0"
    using u(1) by auto
  have "c < 2 ^ 28"
    using b by (simp add: word_less_nat_alt)
  then have "c AND mask 28 = c"
    by (rule less_mask_eq)
  then show "c AND 0x0FFFFFFF = c"
    by (simp add: mask_eq_exp_minus_1)
qed

lemma unat_ucast16 [simp]: "unat (ucast (x :: u16) :: u32) = unat x"
  by (simp add: unsigned_ucast_eq take_bit_nat_eq_self unsigned_less [of x, where ?'a = nat, simplified]
      order_less_trans [OF unsigned_less [of x, where ?'a = nat]])

lemma unat_ucast8 [simp]: "unat (ucast (x :: u8) :: u32) = unat x"
  by (simp add: unsigned_ucast_eq take_bit_nat_eq_self
      order_less_trans [OF unsigned_less [of x, where ?'a = nat]])

lemma fat_sector_unat:
  assumes "geometry_ok st" "valid_cluster st c"
  shows "unat (fat_sector st c) = unat (reserved_sectors (boot_sector st)) + unat c div 128"
    and "entry_offset c = 4 * (unat c mod 128)"
proof -
  note u = valid_cluster_unat [OF assms]
  have b: "unat c < 0x0FFFFFF8"
    using u assms(1) by (simp add: geometry_ok_def)
  then have "unat c * unat (4 :: u32) < 2 ^ 32"
    by simp
  then have m: "unat (c * 4) = unat c * 4"
    by (simp add: unat_mult_lem [THEN iffD1])
  have d: "unat (c * 4 div 512) = unat c div 128"
    by (simp add: unat_div m)
  have "unat c div 128 \<le> (unat (cluster_count st) + 1) div 128"
    using u by (intro div_le_mono) simp
  then have "unat (ucast (reserved_sectors (boot_sector st)) :: u32) + unat (c * 4 div 512) < 2 ^ 32"
    using assms(1) unsigned_less [of "first_data_sector st", where ?'a = nat]
    by (simp add: geometry_ok_def d)
  then have "unat (ucast (reserved_sectors (boot_sector st)) + c * 4 div 512) =
      unat (ucast (reserved_sectors (boot_sector st)) :: u32) + unat (c * 4 div 512)"
    by (intro unat_add_lem [THEN iffD1]) simp
  then show "unat (fat_sector st c) = unat (reserved_sectors (boot_sector st)) + unat c div 128"
    by (simp add: fat_sector_def d)
  have "unat (c * 4 mod 512) = (unat c * 4) mod 512"
    by (simp add: unat_mod m)
  also have "\<dots> = 4 * (unat c mod 128)"
    using mult_mod_right [of 4 "unat c" 128] by (simp add: mult.commute)
  finally show "entry_offset c = 4 * (unat c mod 128)"
    by (simp add: entry_offset_def)
qed

lemma fat_sector_bounds:
  assumes "geometry_ok st" "valid_cluster st c"
  shows "unat (reserved_sectors (boot_sector st)) \<le> unat (fat_sector st c)"
    and "unat (fat_sector st c) < unat (first_data_sector st)"
proof -
  note u = valid_cluster_unat [OF assms]
  have "unat c div 128 \<le> (unat (cluster_count st) + 1) div 128"
    using u by (intro div_le_mono) simp
  then show "unat (fat_sector st c) < unat (first_data_sector st)"
    using assms(1) by (simp add: fat_sector_unat [OF assms] geometry_ok_def)
  show "unat (reserved_sectors (boot_sector st)) \<le> unat (fat_sector st c)"
    by (simp add: fat_sector_unat [OF assms])
qed

lemma fat_entries_apart:
  assumes "geometry_ok st" "valid_cluster st c" "valid_cluster st c'" "c \<noteq> c'"
    and "fat_sector st c = fat_sector st c'"
  shows "entry_offset c + 3 < entry_offset c' \<or> entry_offset c' + 3 < entry_offset c"
proof -
  have "unat c div 128 = unat c' div 128"
    using assms(5) fat_sector_unat(1) [OF assms(1,2)] fat_sector_unat(1) [OF assms(1,3)]
    by simp
  moreover have "unat c \<noteq> unat c'"
    using assms(4) by (simp add: word_unat_eq_iff)
  ultimately have "unat c mod 128 \<noteq> unat c' mod 128"
    by (metis div_mult_mod_eq)
  then show ?thesis
    unfolding fat_sector_unat(2) [OF assms(1,2)] fat_sector_unat(2) [OF assms(1,3)] by arith
qed

lemma fat_sector_not_fsinfo:
  assumes "geometry_ok st" "valid_cluster st c"
  shows "fat_sector st c \<noteq> ucast (fat32_info (boot_sector st))"
proof
  assume "fat_sector st c = ucast (fat32_info (boot_sector st))"
  then have "unat (fat_sector st c) = unat (fat32_info (boot_sector st))"
    by simp
  with fat_sector_bounds(1) [OF assms] assms(1) show False
    by (simp add: geometry_ok_def)
qed

lemma fat_sector_not_after:
  assumes "geometry_ok st" "valid_cluster st c" "first_data_sector st \<le> s"
  shows "fat_sector st c \<noteq> s"
  using fat_sector_bounds(2) [OF assms(1,2)] assms(3) by (auto simp add: word_le_nat_alt)


section \<open>What an allocation leaves alone\<close>

text \<open>
  Sector writes and FSInfo updates keep the volume, writes outside the FAT keep
  the FAT, and an allocation changes the entries of the two clusters it links.
\<close>

lemma same_volume_refl [simp]: "same_volume st st"
  by (simp add: same_volume_def)

lemma same_volume_trans: "same_volume a b \<Longrightarrow> same_volume b c \<Longrightarrow> same_volume a c"
  by (simp add: same_volume_def)

lemma same_volume_simps:
  assumes "same_volume st st'"
  shows "geometry_ok st' = geometry_ok st" "valid_cluster st' = valid_cluster st"
    "fat_sector st' = fat_sector st" "cluster_to_sector st' = cluster_to_sector st"
    "clusters_for st' = clusters_for st" "cluster_count st' = cluster_count st"
    "bytes_per_cluster st' = bytes_per_cluster st" "boot_sector st' = boot_sector st"
    "first_data_sector st' = first_data_sector st"
  using assms
  by (simp_all add: same_volume_def geometry_ok_def valid_cluster_def fat_sector_def
      cluster_to_sector_def clusters_for_def fun_eq_iff)

lemma same_fat_refl [simp]: "same_fat st st"
  by (simp add: same_fat_def)


lemma same_fat_volume: "same_fat st st' \<Longrightarrow> same_volume st st'"
  by (simp add: same_fat_def)

lemma chain_cong:
  assumes "same_fat st st'"
  shows "cluster_chain st' c k = cluster_chain st c k"
proof (induction k arbitrary: c)
  case 0
  show ?case by simp
next
  case (Suc k)
  show ?case
  proof (cases "valid_cluster st c")
    case False
    then show ?thesis
      by (simp add: same_volume_simps(2) [OF same_fat_volume [OF assms]])
  next
    case True
    then have "read_cluster_fat_entry st' c = read_cluster_fat_entry st c"
      using assms by (simp add: same_fat_def)
    then show ?thesis
      by (simp add: same_volume_simps(2) [OF same_fat_volume [OF assms]] Suc.IH
          cong: sum.case_cong)
  qed
qed

lemma write_sector_same_volume:
  "write_sector st s buf = Inr st' \<Longrightarrow> same_volume st st'"
  by (simp add: same_volume_def write_sector_fields)

lemma write_entry_same_volume:
  "write_cluster_fat_entry st c v = Inr st' \<Longrightarrow> same_volume st st'"
  by (simp add: same_volume_def write_entry_fields)

lemma count_allocation_same_volume: "same_volume st (count_allocation st)"
  by (simp add: same_volume_def count_allocation_fields)

lemma write_sector_same_fat:
  assumes "write_sector st s buf = Inr st'"
    and "\<And>c. valid_cluster st c \<Longrightarrow> fat_sector st c \<noteq> s"
  shows "same_fat st st'"
  unfolding same_fat_def
  using assms(2)
  by (auto simp add: write_sector_same_volume [OF assms(1)]
      intro!: read_entry_write_sector_other [OF assms(1)])

lemma count_allocation_same_fat:
  assumes "geometry_ok st"
  shows "same_fat st (count_allocation st)"
  unfolding same_fat_def
  by (auto simp add: count_allocation_same_volume
      intro!: read_entry_count_allocation fat_sector_not_fsinfo [OF assms])

lemma fat_entry_frame:
  assumes "geometry_ok st" "valid_cluster st c" "valid_cluster st c'" "c \<noteq> c'"
    and "write_cluster_fat_entry st c v = Inr st'"
  shows "read_cluster_fat_entry st' c' = read_cluster_fat_entry st c'"
proof (cases "fat_sector st c' = fat_sector st c")
  case False
  from assms(5) obtain buf where
    w: "write_sector st (fat_sector st c)
       (put_le32 buf (entry_offset c) ((le32 buf (entry_offset c) AND 0xF0000000) OR (v AND 0x0FFFFFFF)))
     = Inr st'"
    by (rule write_cluster_fat_entry_Inr)
  show ?thesis
    using False by (rule read_entry_write_sector_other [OF w])
next
  case True
  from assms(5) obtain buf where r: "read_sector st (fat_sector st c) = Inr buf" and
    w: "write_sector st (fat_sector st c)
       (put_le32 buf (entry_offset c) ((le32 buf (entry_offset c) AND 0xF0000000) OR (v AND 0x0FFFFFFF)))
     = Inr st'"
    by (rule write_cluster_fat_entry_Inr)
  have a: "entry_offset c + 3 < entry_offset c' \<or> entry_offset c' + 3 < entry_offset c"
    using fat_entries_apart [OF assms(1,2,3,4)] True by simp
  have o: "put_le32 buf (entry_offset c) x (entry_offset c' + i) = buf (entry_offset c' + i)"
    if "i \<le> 3" for i x
    using a that by (intro put_le32_other) arith
  have "le32 (put_le32 buf (entry_offset c) x) (entry_offset c') = le32 buf (entry_offset c')" for x
    using o [of 0 x] o [of 1 x] o [of 2 x] o [of 3 x] by (simp add: le32_def)
  then show ?thesis
    by (simp add: read_cluster_fat_entry_def write_sector_geometry [OF w] True
        read_sector_write_same [OF w r] r)
qed

lemma allocate_and_link_cluster_Inr:
  assumes "geometry_ok st" "valid_cluster st l"
    and "allocate_and_link_cluster st l = Inr (st', y)"
  shows "same_volume st st'" "valid_cluster st y" "read_cluster_fat_entry st y = Inr 0"
    and "read_cluster_fat_entry st' y = Inr 0x0FFFFFF8"
    and "y \<noteq> l \<Longrightarrow> read_cluster_fat_entry st' l = Inr y"
    and "\<And>x. valid_cluster st x \<Longrightarrow> x \<noteq> l \<Longrightarrow> x \<noteq> y \<Longrightarrow>
          read_cluster_fat_entry st' x = read_cluster_fat_entry st x"
proof -
  from assms(3) obtain y0 where g: "get_next_free_cluster st = Inr y0"
    by (cases "get_next_free_cluster st") (auto simp add: allocate_and_link_cluster_def)
  from assms(3) g obtain st1 where w1: "write_cluster_fat_entry st l y0 = Inr st1"
    by (cases "write_cluster_fat_entry st l y0") (auto simp add: allocate_and_link_cluster_def)
  from assms(3) g w1 obtain st2 where w2: "write_cluster_fat_entry st1 y0 FAT32_FAT_ENTRY_EOC = Inr st2"
    by (cases "write_cluster_fat_entry st1 y0 FAT32_FAT_ENTRY_EOC")
       (auto simp add: allocate_and_link_cluster_def)
  from assms(3) g w1 w2 have e: "st' = count_allocation st2" "y = y0"
    by (simp_all add: allocate_and_link_cluster_def)
  note v1 = write_entry_same_volume [OF w1]
  note v2 = write_entry_same_volume [OF w2]
  have g1: "geometry_ok st1" and g2: "geometry_ok st2"
    using assms(1) by (simp_all add: same_volume_simps(1) [OF v1] same_volume_simps(1) [OF v2])
  have vy: "valid_cluster st y"
    using get_next_free_cluster_Inr [OF g] by (simp add: valid_cluster_def e)
  show "same_volume st st'"
    unfolding e by (intro same_volume_trans [OF v1] same_volume_trans [OF v2]
        count_allocation_same_volume)
  show "valid_cluster st y" by (rule vy)
  show "read_cluster_fat_entry st y = Inr 0"
    using get_next_free_cluster_Inr [OF g] by (simp add: e)
  have c: "read_cluster_fat_entry st' x = read_cluster_fat_entry st2 x" if "valid_cluster st x" for x
    using that count_allocation_same_fat [OF g2]
    by (simp add: e same_fat_def same_volume_simps(2) [OF v1] same_volume_simps(2) [OF v2])
  show "read_cluster_fat_entry st' y = Inr 0x0FFFFFF8"
    using read_after_write_entry [OF w2] c [OF vy] by (simp add: e)
  show "read_cluster_fat_entry st' l = Inr y" if "y \<noteq> l"
  proof -
    have "read_cluster_fat_entry st2 l = read_cluster_fat_entry st1 l"
      using that vy assms(2)
      by (intro fat_entry_frame [OF g1 _ _ _ w2])
         (simp_all add: same_volume_simps(2) [OF v1] e)
    also have "\<dots> = Inr (y AND 0x0FFFFFFF)"
      using read_after_write_entry [OF w1] by (simp add: e)
    finally show ?thesis
      using c [OF assms(2)] by (simp add: valid_cluster_below_eoc(3) [OF assms(1) vy])
  qed
  show "read_cluster_fat_entry st' x = read_cluster_fat_entry st x"
    if "valid_cluster st x" "x \<noteq> l" "x \<noteq> y" for x
  proof -
    have "read_cluster_fat_entry st2 x = read_cluster_fat_entry st1 x"
      using that vy
      by (intro fat_entry_frame [OF g1 _ _ _ w2])
         (simp_all add: same_volume_simps(2) [OF v1] e)
    also have "\<dots> = read_cluster_fat_entry st x"
      using that assms(2)
      by (intro fat_entry_frame [OF assms(1) _ _ _ w1]) simp_all
    finally show ?thesis
      using c [OF that(1)] by simp
  qed
qed

section \<open>Walking and extending a cluster_chain\<close>


lemma chain_Suc:
  "cluster_chain st c (Suc k) \<longleftrightarrow>
     valid_cluster st c \<and>
     (\<exists>v. read_cluster_fat_entry st c = Inr v \<and>
        (if k = 0 then v \<ge> FAT32_FAT_ENTRY_EOC else v < FAT32_FAT_ENTRY_EOC \<and> cluster_chain st v k))"
  by (auto split: sum.splits)














section \<open>The copy loop leaves the FAT alone\<close>





section \<open>Errors carried through the loops\<close>








section \<open>A write that succeeds\<close>


section \<open>Counting clusters\<close>








section \<open>A write keeps the cluster_chain exact\<close>


section \<open>A new file has a cluster_chain of one cluster\<close>


section \<open>Example: appending to a file\<close>

text \<open>
  Appending 600 bytes to the ten-byte file of \<open>card_file\<close> takes a second
  cluster.
\<close>

lemma geometry_volume_state: "geometry_ok (volume_state c fs)"
  by (simp add: geometry_ok_def volume_state_def bs_fat32_def)

lemma valid_volume_state:
  "valid_cluster (volume_state c fs) x \<longleftrightarrow> 2 \<le> x \<and> x < 129056"
  by (simp add: valid_cluster_def volume_state_def)

lemma file_entries:
  "read_cluster_fat_entry (volume_state (card_file fs) fs') 3 = Inr 0x0FFFFFFF"
  "read_cluster_fat_entry (volume_state (card_file fs) fs') 4 = Inr 0"
proof -
  let ?st = "volume_state (card_file fs) fs'"
  have s: "fat_sector ?st 3 = 32" "fat_sector ?st 4 = 32"
    by (simp_all add: fat_sector_def volume_state_def bs_fat32_def)
  have o: "entry_offset 3 = 12" "entry_offset 4 = 16"
    by (simp_all add: entry_offset_def)
  have v: "le32 fat_sector_b 12 = 0x0FFFFFFF" "le32 fat_sector_b 16 = 0"
    by (simp_all add: le32_def fat_sector_b_def zero_sector_def)
  have r: "read_sector ?st 32 = Inr fat_sector_b"
    by (simp add: read_sector_def volume_state_def file_blocks)
  show "read_cluster_fat_entry ?st 3 = Inr 0x0FFFFFFF" "read_cluster_fat_entry ?st 4 = Inr 0"
    by (simp_all add: read_cluster_fat_entry_def s o v r)
qed

lemma file_free_cluster:
  "get_next_free_cluster (volume_state (card_file fsinfo_good) fsinfo_good) = Inr 4"
proof -
  let ?st = "volume_state (card_file fsinfo_good) fsinfo_good"
  have c: "cluster_count ?st + 2 = 129056" "fsinfo ?st = fsinfo_good"
    by (simp_all add: volume_state_def)
  have "free_cluster_loop ?st 4 = Inr 4"
    by (subst free_cluster_loop.simps) (simp add: c file_entries)
  then have "free_cluster_loop ?st 3 = Inr 4"
    by (subst free_cluster_loop.simps) (simp add: c file_entries)
  then show ?thesis
    by (simp add: get_next_free_cluster_def c good_hints)
qed

lemma reliable_volume_state: "reliable (volume_state (card_of b) fs)"
  by (simp add: reliable_def volume_state_def card_of_def)

lemma reliable_allocate:
  assumes "reliable st" "get_next_free_cluster st = Inr y" "2 \<le> l"
  shows "\<exists>st'. allocate_and_link_cluster st l = Inr (st', y) \<and> reliable st'"
proof -
  from reliable_write_entry [OF assms(1,3), of y] obtain st1 where
    w1: "write_cluster_fat_entry st l y = Inr st1" and r1: "reliable st1"
    by blast
  have "2 \<le> y"
    using get_next_free_cluster_Inr(1) [OF assms(2)] .
  from reliable_write_entry [OF r1 this, of FAT32_FAT_ENTRY_EOC] obtain st2 where
    w2: "write_cluster_fat_entry st1 y FAT32_FAT_ENTRY_EOC = Inr st2" and r2: "reliable st2"
    by blast
  show ?thesis
    using assms(2) w1 w2 reliable_count_allocation [OF r2]
    by (simp add: allocate_and_link_cluster_def)
qed

lemma reliable_same_fat:
  assumes "reliable st" "geometry_ok st" "first_data_sector st \<le> s"
  shows "\<exists>st'. write_sector st s buf = Inr st' \<and> reliable st' \<and> same_fat st st'"
proof -
  from reliable_write [OF assms(1), of s buf] obtain st' where
    w: "write_sector st s buf = Inr st'" and r: "reliable st'"
    by blast
  have "same_fat st st'"
    using w
  proof (rule write_sector_same_fat)
    fix c assume "valid_cluster st c"
    with assms(2) show "fat_sector st c \<noteq> s"
      using assms(3) by (rule fat_sector_not_after)
  qed
  with w r show ?thesis by blast
qed


section \<open>Example: a write of no bytes at the end of a full cluster\<close>

text \<open>
  At the end of a file that fills its cluster, the first loop of \<^verbatim>\<open>fat32_write\<close>
  allocates a cluster before anything is written: a write of no bytes leaves the
  file of 512 bytes with a cluster_chain of two clusters.
\<close>

lemma empty_write_example:
  "\<exists>st'. fat32_write (volume_state (card_file fsinfo_good) fsinfo_good) (Some handle_full)
       (Some (\<lambda>_. 0x41)) 0 (Some 0) =
       Some (FAT32_OK, st', Some (handle_full\<lparr>current_cluster := 4\<rparr>), Some 0) \<and>
     cluster_chain (volume_state (card_file fsinfo_good) fsinfo_good) 5 1 \<and>
     clusters_for st' (file_size handle_full) = 1 \<and> cluster_chain st' 5 2"
proof -
  let ?st = "volume_state (card_file fsinfo_good) fsinfo_good"
  let ?src = "\<lambda>_ :: nat. 0x41 :: u8"
  have cf: "card_file fsinfo_good = card_of ((\<lambda>_. zero_sector)(0 := boot_fat32, 1 := fsinfo_good,
      32 := fat_sector_b, 2053 := data_sector))"
    by (simp add: card_file_def)
  have rd: "fat32_is_ready ?st = (True, ?st)"
    unfolding cf by (rule ready_volume_state)
  have r0: "reliable ?st"
    unfolding cf by (rule reliable_volume_state)
  have g0: "geometry_ok ?st"
    by (rule geometry_volume_state)
  have v: "valid_cluster ?st 5" "valid_cluster ?st 4"
    by (simp_all add: valid_volume_state)
  have c0: "cluster_chain ?st 5 1"
    using v(1) by (simp add: chain_Suc [of _ _ 0, simplified] read_entry_5)
  from reliable_allocate [OF r0 file_free_cluster, of 5] obtain sa where
    al: "allocate_and_link_cluster ?st 5 = Inr (sa, 4)" and ra: "reliable sa"
    by auto
  note a = allocate_and_link_cluster_Inr [OF g0 v(1) al]
  note sva = same_volume_simps [OF a(1)]
  have ga: "geometry_ok sa"
    using g0 by (simp add: sva)
  have fa: "read_cluster_fat_entry sa 5 = Inr 4" "read_cluster_fat_entry sa 4 = Inr 0x0FFFFFF8"
    using a(4,5) by simp_all
  have geo: "bytes_per_cluster sa = 512" "first_data_sector sa = 2050"
    by (simp_all add: sva volume_state_def)
  have pl: "position_loop ?st 5 (unat ((512 :: u32) div bytes_per_cluster ?st)) = Inr (sa, 4)"
    by (simp add: volume_state_def read_entry_5 [unfolded volume_state_def] al [unfolded volume_state_def])
  have cs: "ceil_clusters sa 512 = 1"
    by (simp add: ceil_clusters_def geo)
  have fl: "find_last_cluster sa 5 1 = Inr 5"
    by (simp add: find_last_cluster_def)
  have gl: "grow_loop sa (handle_full\<lparr>current_cluster := 4\<rparr>) 1 1 1 5 =
      Inr (sa, handle_full\<lparr>current_cluster := 4\<rparr>, 5)"
    by (subst grow_loop.simps) simp
  have sk: "seek_to_cluster sa 5 ((512 :: u32) div bytes_per_cluster sa) = Inr 4"
    by (simp add: seek_to_cluster_def geo fa)
  have wl: "write_loop sa (handle_full\<lparr>current_cluster := 4\<rparr>) ?src 0 4 512 0 =
      Inr (sa, handle_full\<lparr>current_cluster := 4\<rparr>, 512, 0)"
    by (subst write_loop.simps) simp
  obtain buf3 where b3: "read_sector sa 2050 = Inr buf3"
    using reliable_read [OF ra] by blast
  from reliable_same_fat [OF ra ga, of 2050 "put_le32 buf3 92 512"] obtain se where
    w3: "write_sector sa 2050 (put_le32 buf3 92 512) = Inr se" and sfe: "same_fat sa se"
    by (auto simp add: geo)
  note sve = same_volume_simps [OF same_fat_volume [OF sfe]]
  have wf: "write_finish sa (handle_full\<lparr>current_cluster := 4\<rparr>) 512 0 512 (Some 0) =
      Some (FAT32_OK, se, Some (handle_full\<lparr>current_cluster := 4\<rparr>), Some 0)"
    by (simp add: write_finish_def Let_def handle_full_def truncate_chain_grown b3 w3)
  have w: "fat32_write ?st (Some handle_full) (Some ?src) 0 (Some 0) =
      Some (FAT32_OK, se, Some (handle_full\<lparr>current_cluster := 4\<rparr>), Some 0)"
    unfolding fat32_write_def
    using rd pl cs fl gl sk wl wf
    by (simp add: handle_full_def Let_def sva)
  have "cluster_chain sa 4 (Suc 0)"
    using v fa by (simp add: chain_Suc sva)
  then have "cluster_chain sa 5 (Suc (Suc 0))"
    using v fa by (simp add: chain_Suc [of sa 5] sva)
  moreover have "(2 :: nat) = Suc (Suc 0)"
    by simp
  ultimately have "cluster_chain sa 5 2"
    by (simp only:)
  then have c2: "cluster_chain se 5 2"
    by (simp add: chain_cong [OF sfe])
  have "clusters_for se (file_size handle_full) = 1"
    by (simp add: clusters_for_def sve geo handle_full_def)
  with w c0 c2 show ?thesis by blast
qed

section \<open>The chain of a file\<close>




end
